theory Spec2Isabelle
  imports Main "HOL-Library.Sublist"
begin

section \<open>Python values and exceptions\<close>

text \<open>
  The scripts handle three kinds of Python data: text read from the process environment
  (\<open>os.getenv\<close> gives a \<open>str\<close> or \<open>None\<close>), HTTP responses, and the objects that
  \<open>response.json()\<close> parses out of a response body. A parsed JSON document is a tree of
  \<open>None\<close>, \<open>bool\<close>, \<open>int\<close>, \<open>float\<close>, \<open>str\<close>, \<open>list\<close> and \<open>dict\<close>. A \<open>dict\<close> keeps
  its insertion order and has no duplicate keys; it is an association list here, read with
  \<open>map_of\<close> and iterated in list order. A \<open>float\<close> is a mantissa and a binary
  exponent, an infinity or a NaN; the scripts compute nothing with floats and only apply
  \<open>bool\<close> and \<open>str\<close> to them.
\<close>

datatype pyfloat = Finite int int | Infinite bool | NaN

datatype json =
    JNull
  | JBool bool
  | JInt int
  | JFloat pyfloat
  | JStr string
  | JArr "json list"
  | JObj "(string \<times> json) list"

text \<open>
  The exceptions that the modelled statements raise themselves (\<open>KeyError\<close>, \<open>TypeError\<close>,
  \<open>AttributeError\<close>, a body that is not JSON) and those the environment raises into them
  (a failed file access, a failed HTTP exchange, a failed SDK call, end of input, and the
  two that Ctrl-C and \<open>sys.exit\<close> produce). \<open>is_Exception\<close> tells whether the class
  derives from \<open>Exception\<close>: \<open>KeyboardInterrupt\<close> and \<open>SystemExit\<close> derive from
  \<open>BaseException\<close> only.
\<close>

datatype py_exception =
    KeyError string
  | TypeError
  | AttributeError
  | JSONDecodeError
  | OSError
  | RequestException
  | AzureError
  | EOFError
  | KeyboardInterrupt
  | SystemExit

fun is_Exception :: "py_exception \<Rightarrow> bool" where
  "is_Exception KeyboardInterrupt = False"
| "is_Exception SystemExit = False"
| "is_Exception _ = True"

text \<open>\<open>obj.get(key)\<close>: a method of \<open>dict\<close> only; a missing key gives \<open>None\<close>.\<close>

fun py_get :: "json \<Rightarrow> string \<Rightarrow> py_exception + json" where
  "py_get (JObj kvs) k = Inr (case map_of kvs k of None \<Rightarrow> JNull | Some v \<Rightarrow> v)"
| "py_get _ k = Inl AttributeError"

text \<open>\<open>obj[key]\<close> with a \<open>str\<close> key: \<open>KeyError\<close> on a \<open>dict\<close> without the key,
  \<open>TypeError\<close> on every other JSON value.\<close>

fun py_getitem :: "json \<Rightarrow> string \<Rightarrow> py_exception + json" where
  "py_getitem (JObj kvs) k = (case map_of kvs k of None \<Rightarrow> Inl (KeyError k) | Some v \<Rightarrow> Inr v)"
| "py_getitem _ k = Inl TypeError"

text \<open>\<open>key in obj\<close> with a \<open>str\<close> key: key membership on a \<open>dict\<close>, element membership on
  a \<open>list\<close>, substring test on a \<open>str\<close>, \<open>TypeError\<close> on the values that are not
  containers.\<close>

fun py_contains :: "string \<Rightarrow> json \<Rightarrow> py_exception + bool" where
  "py_contains k (JObj kvs) = Inr (k \<in> set (map fst kvs))"
| "py_contains k (JArr xs) = Inr (JStr k \<in> set xs)"
| "py_contains k (JStr s) = Inr (sublist k s)"
| "py_contains k _ = Inl TypeError"

text \<open>\<open>for x in obj\<close>: the elements of a \<open>list\<close>, the keys of a \<open>dict\<close>, the characters
  of a \<open>str\<close>; the other values are not iterable.\<close>

fun py_iter :: "json \<Rightarrow> py_exception + json list" where
  "py_iter (JArr xs) = Inr xs"
| "py_iter (JObj kvs) = Inr (map (\<lambda>kv. JStr (fst kv)) kvs)"
| "py_iter (JStr s) = Inr (map (\<lambda>c. JStr [c]) s)"
| "py_iter _ = Inl TypeError"

text \<open>\<open>obj.items()\<close>: a method of \<open>dict\<close> only.\<close>

fun py_items :: "json \<Rightarrow> py_exception + (string \<times> json) list" where
  "py_items (JObj kvs) = Inr kvs"
| "py_items _ = Inl AttributeError"

text \<open>Decimal notation of an \<open>int\<close>, as \<open>str\<close> gives it.\<close>

fun str_nat :: "nat \<Rightarrow> string" where
  "str_nat n =
     (if n < 10 then [''0123456789'' ! n]
      else str_nat (n div 10) @ [''0123456789'' ! (n mod 10)])"

definition str_int :: "int \<Rightarrow> string" where
  "str_int i = (if i < 0 then CHR ''-'' # str_nat (nat (- i)) else str_nat (nat i))"

text \<open>What an f-string puts in place of \<open>{x}\<close> when \<open>x\<close> came from \<open>os.getenv\<close>.\<close>

fun fstr_opt :: "string option \<Rightarrow> string" where
  "fstr_opt None = ''None''"
| "fstr_opt (Some s) = s"

section \<open>The environment, the world and the effects\<close>

datatype http_method = DELETE | PUT | POST | GET

datatype payload = NoData | TextData string | BytesData string

text \<open>A \<open>requests.Response\<close>: \<open>headers\<close> is the lookup of its case-insensitive header
  dictionary, \<open>json_body\<close> is what \<open>response.json()\<close> parses (\<open>None\<close> when the body is
  not JSON and the call raises).\<close>

record response =
  status_code :: int
  resp_text :: string
  resp_headers :: "string \<Rightarrow> string option"
  json_body :: "json option"

definition resp_json :: "response \<Rightarrow> py_exception + json" where
  "resp_json r = (case json_body r of None \<Rightarrow> Inl JSONDecodeError | Some j \<Rightarrow> Inr j)"

text \<open>\<open>response.json().get("status")\<close>\<close>

definition resp_status :: "response \<Rightarrow> py_exception + json" where
  "resp_status r = (case resp_json r of Inl e \<Rightarrow> Inl e | Inr j \<Rightarrow> py_get j ''status'')"

text \<open>The object handed to \<open>print\<close>.\<close>

datatype py_obj = PyStr string | PyInt int | PyJson json | PyExn py_exception

text \<open>
  Every call that reaches outside the process is an event of the trace, recorded when the
  call is made; whether it then returns or raises is the environment's answer.
\<close>

datatype event =
    System string
  | LoadDotenv
  | Print py_obj
  | Sleep nat
  | ReadFile string
  | WriteJson string json
  | Http http_method string "(string \<times> string option) list" payload
  | Input string
  | NewClient "string option list"
  | Search string "string list" "string list" bool
  | BeginAnalyze string string string
  | PollerResult

fun is_http :: "event \<Rightarrow> bool" where
  "is_http (Http m u h d) = True"
| "is_http _ = False"

fun is_write :: "event \<Rightarrow> bool" where
  "is_write (WriteJson p j) = True"
| "is_write _ = False"

fun is_sleep :: "event \<Rightarrow> bool" where
  "is_sleep (Sleep n) = True"
| "is_sleep _ = False"

fun is_input :: "event \<Rightarrow> bool" where
  "is_input (Input p) = True"
| "is_input _ = False"

fun is_search :: "event \<Rightarrow> bool" where
  "is_search (Search q s ob c) = True"
| "is_search _ = False"

text \<open>What \<open>search_client.search(...)\<close> gives: \<open>get_count()\<close> is an \<open>int\<close> or
  \<open>None\<close>; iterating yields the documents, each a \<open>dict\<close>, and the iteration may
  end with an exception when a further page of results cannot be fetched.\<close>

record search_results =
  total_count :: "int option"
  found :: "json list"
  stops_with :: "py_exception option"

text \<open>A \<open>DocumentField\<close> of the Form Recognizer SDK: its \<open>value\<close> and \<open>confidence\<close>
  attributes as the f-strings render them, and for a currency value its \<open>symbol\<close> and
  \<open>amount\<close>; a \<open>value\<close> without these two attributes has \<open>currency = None\<close>.\<close>

record document_field =
  value_str :: string
  confidence_str :: string
  currency :: "(string \<times> string) option"

text \<open>
  The environment of one run. The replies to HTTP requests, sleeps, console reads and
  searches are sequences: the \<open>k\<close>-th call of its kind gets the \<open>k\<close>-th reply.
  \<open>new_client\<close> is the outcome of constructing an SDK client from its arguments,
  \<open>poller_result\<close> the outcome of \<open>poller.result()\<close>: the \<open>documents\<close> attribute of
  the analysis result (a list or \<open>None\<close>), each document given by the lookup of its
  \<open>fields\<close> dictionary.
  \<open>getenv\<close> is the process environment after \<open>load_dotenv()\<close>. \<open>py_repr\<close> is the
  interpreter's \<open>str\<close> on floats, lists and dicts. \<open>write_json\<close> is the outcome of opening
  a file for writing and dumping an object into it, \<open>close_reply\<close> that of flushing and
  closing the file where its \<open>with\<close> block ends.
\<close>

record env =
  os_name :: string
  argv :: "string list"
  getenv :: "string \<Rightarrow> string option"
  json_dumps :: "json \<Rightarrow> string"
  py_repr :: "json \<Rightarrow> string"
  read_json :: "string \<Rightarrow> py_exception + json"
  read_bytes :: "string \<Rightarrow> py_exception + string"
  write_json :: "string \<Rightarrow> json \<Rightarrow> py_exception option"
  close_reply :: "string \<Rightarrow> py_exception option"
  http_reply :: "nat \<Rightarrow> py_exception + response"
  sleep_reply :: "nat \<Rightarrow> py_exception option"
  input_reply :: "nat \<Rightarrow> py_exception + string"
  new_client :: "string option list \<Rightarrow> py_exception option"
  search_reply :: "nat \<Rightarrow> py_exception + search_results"
  begin_analyze :: "py_exception option"
  poller_result :: "py_exception + (string \<Rightarrow> document_field option) list option"

text \<open>
  The state of a run is the trace of the calls made so far. The number of calls of one kind
  in it is the index of the next reply of that kind.
\<close>

type_synonym world = "event list"

definition n_http :: "world \<Rightarrow> nat" where
  "n_http w = length (filter is_http w)"

definition n_sleep :: "world \<Rightarrow> nat" where
  "n_sleep w = length (filter is_sleep w)"

definition n_input :: "world \<Rightarrow> nat" where
  "n_input w = length (filter is_input w)"

definition n_search :: "world \<Rightarrow> nat" where
  "n_search w = length (filter is_search w)"

text \<open>
  A statement either completes with a value, raises, or is cut off because the fuel that
  bounds the iterations of the unbounded loops has run out. \<open>OutOfFuel\<close> with every
  amount of fuel is a run that never ends.
\<close>

datatype 'a outcome = Return 'a | Raise py_exception | OutOfFuel

type_synonym 'a prog = "world \<Rightarrow> 'a outcome \<times> world"

definition ret :: "'a \<Rightarrow> 'a prog" where
  "ret x w = (Return x, w)"

definition raise :: "py_exception \<Rightarrow> 'a prog" where
  "raise e w = (Raise e, w)"

definition and_then :: "'a prog \<Rightarrow> ('a \<Rightarrow> 'b prog) \<Rightarrow> 'b prog" where
  "and_then m f w =
     (case m w of
        (Return x, w') \<Rightarrow> f x w'
      | (Raise e, w') \<Rightarrow> (Raise e, w')
      | (OutOfFuel, w') \<Rightarrow> (OutOfFuel, w'))"

text \<open>A pure Python expression that may raise.\<close>

definition eval :: "py_exception + 'a \<Rightarrow> 'a prog" where
  "eval r = (case r of Inl e \<Rightarrow> raise e | Inr x \<Rightarrow> ret x)"

definition emit :: "event \<Rightarrow> unit prog" where
  "emit ev w = (Return (), w @ [ev])"

definition may_raise :: "py_exception option \<Rightarrow> unit prog" where
  "may_raise r = (case r of None \<Rightarrow> ret () | Some e \<Rightarrow> raise e)"

definition print :: "py_obj \<Rightarrow> unit prog" where
  "print x = emit (Print x)"

definition os_system_clear :: "env \<Rightarrow> unit prog" where
  "os_system_clear E = emit (System (if os_name E = ''nt'' then ''cls'' else ''clear''))"

definition load_dotenv :: "unit prog" where
  "load_dotenv = emit LoadDotenv"

definition time_sleep :: "env \<Rightarrow> nat \<Rightarrow> unit prog" where
  "time_sleep E secs w = may_raise (sleep_reply E (n_sleep w)) (w @ [Sleep secs])"

definition requests ::
  "env \<Rightarrow> http_method \<Rightarrow> string \<Rightarrow> (string \<times> string option) list \<Rightarrow> payload \<Rightarrow> response prog" where
  "requests E m url hdrs d w = eval (http_reply E (n_http w)) (w @ [Http m url hdrs d])"

text \<open>\<open>with open(path, "r") as file: json.load(file)\<close>\<close>

definition load_json_file :: "env \<Rightarrow> string \<Rightarrow> json prog" where
  "load_json_file E path = and_then (emit (ReadFile path)) (\<lambda>_. eval (read_json E path))"

text \<open>\<open>with open(path, "rb") as file: file.read()\<close>\<close>

definition read_binary_file :: "env \<Rightarrow> string \<Rightarrow> string prog" where
  "read_binary_file E path = and_then (emit (ReadFile path)) (\<lambda>_. eval (read_bytes E path))"

text \<open>\<open>with open(path, "w") as json_file: json.dump(obj, json_file, indent=4)\<close>, up to
  the return of \<open>json.dump\<close>; and the end of the \<open>with\<close> block, where the file is flushed
  and closed.\<close>

definition dump_json_file :: "env \<Rightarrow> string \<Rightarrow> json \<Rightarrow> unit prog" where
  "dump_json_file E path j = and_then (emit (WriteJson path j)) (\<lambda>_. may_raise (write_json E path j))"

definition close_file :: "env \<Rightarrow> string \<Rightarrow> unit prog" where
  "close_file E path = may_raise (close_reply E path)"

text \<open>A \<open>for\<close> loop over a list: the body runs on each element in order, and an
  exception in the body ends the loop.\<close>

fun for_each :: "('a \<Rightarrow> unit prog) \<Rightarrow> 'a list \<Rightarrow> unit prog" where
  "for_each body [] = ret ()"
| "for_each body (x # xs) = and_then (body x) (\<lambda>_. for_each body xs)"

text \<open>\<open>try: body  except Exception as ex: print(ex)\<close>: an exception of a class derived
  from \<open>Exception\<close> is printed and the statement completes; any other one passes
  through.\<close>

definition try_except_print :: "unit prog \<Rightarrow> unit prog" where
  "try_except_print body w =
     (case body w of
        (Raise e, w') \<Rightarrow> (if is_Exception e then print (PyExn e) w' else (Raise e, w'))
      | r \<Rightarrow> r)"

text \<open>\<open>str(x)\<close> of a parsed JSON value, as an f-string inserts it.\<close>

definition py_str :: "env \<Rightarrow> json \<Rightarrow> string" where
  "py_str E j =
     (case j of
        JStr s \<Rightarrow> s
      | JNull \<Rightarrow> ''None''
      | JBool b \<Rightarrow> (if b then ''True'' else ''False'')
      | JInt i \<Rightarrow> str_int i
      | _ \<Rightarrow> py_repr E j)"

text \<open>\<open>bool(x)\<close> of a parsed JSON value.\<close>

definition py_truth :: "json \<Rightarrow> bool" where
  "py_truth j =
     (case j of
        JNull \<Rightarrow> False
      | JBool b \<Rightarrow> b
      | JInt i \<Rightarrow> i \<noteq> 0
      | JFloat x \<Rightarrow> (case x of Finite m e \<Rightarrow> m \<noteq> 0 | _ \<Rightarrow> True)
      | JStr s \<Rightarrow> s \<noteq> []
      | JArr xs \<Rightarrow> xs \<noteq> []
      | JObj kvs \<Rightarrow> kvs \<noteq> [])"

definition CU_VERSION :: string where
  "CU_VERSION = ''2025-05-01-preview''"

definition nl :: string where
  "nl = [CHR 0x0A]"

definition sq :: string where
  "sq = [CHR 0x27]"

section \<open>The polling loop of \<open>create-analyzer.py\<close> and \<open>read-card.py\<close>\<close>

text \<open>
  Lines 110 to 113 of \<open>create-analyzer.py\<close> and 132 to 135 of \<open>read-card.py\<close> are the
  same loop, up to the name of the URL variable:
  \<^verbatim>\<open>
    while status == "Running":
        time.sleep(1)
        result_response = requests.get(url, headers=headers)
        status = result_response.json().get("status")
  \<close>
  The fuel bounds the number of iterations. The loop hands on the two variables it
  assigns, \<open>result_response\<close> and \<open>status\<close>.
\<close>

fun poll_while_running ::
  "env \<Rightarrow> nat \<Rightarrow> string \<Rightarrow> (string \<times> string option) list \<Rightarrow> response \<Rightarrow> json
     \<Rightarrow> (response \<times> json) prog" where
  "poll_while_running E 0 url hdrs result_response status =
     (if status = JStr ''Running'' then (\<lambda>w. (OutOfFuel, w))
      else ret (result_response, status))"
| "poll_while_running E (Suc n) url hdrs result_response status =
     (if status = JStr ''Running'' then
        and_then (time_sleep E 1) (\<lambda>_.
        and_then (requests E GET url hdrs NoData) (\<lambda>result_response.
        and_then (eval (resp_status result_response)) (\<lambda>status.
        poll_while_running E n url hdrs result_response status)))
      else ret (result_response, status))"

section \<open>\<open>create-analyzer.py\<close>\<close>

text \<open>The \<open>headers\<close> dictionary of both scripts (lines 66 to 68 and 75 to 77) and the
  URL of line 74.\<close>

definition request_headers :: "string option \<Rightarrow> string \<Rightarrow> (string \<times> string option) list" where
  "request_headers key content_type =
     [(''Ocp-Apim-Subscription-Key'', key), (''Content-Type'', Some content_type)]"

definition analyzer_url :: "string option \<Rightarrow> string option \<Rightarrow> string" where
  "analyzer_url endpoint analyzer =
     fstr_opt endpoint @ ''/contentunderstanding/analyzers/'' @ fstr_opt analyzer
       @ ''?api-version='' @ CU_VERSION"

text \<open>Lines 96 to 124: what \<open>create_analyzer\<close> does once the PUT is accepted.\<close>

definition create_analyzer_await ::
  "env \<Rightarrow> nat \<Rightarrow> string option \<Rightarrow> (string \<times> string option) list \<Rightarrow> response \<Rightarrow> unit prog" where
  "create_analyzer_await E n analyzer hdrs response =
     and_then (eval (case resp_headers response ''Operation-Location'' of
                       None \<Rightarrow> Inl (KeyError ''operation-location'')
                     | Some u \<Rightarrow> Inr u)) (\<lambda>callback_url.
     and_then (time_sleep E 1) (\<lambda>_.
     and_then (requests E GET callback_url hdrs NoData) (\<lambda>result_response.
     and_then (eval (resp_status result_response)) (\<lambda>status.
     and_then (poll_while_running E n callback_url hdrs result_response status) (\<lambda>polled.
     let result_response = fst polled in
     and_then (eval (resp_status result_response)) (\<lambda>result.
     and_then (print (PyJson result)) (\<lambda>_.
     if result = JStr ''Succeeded'' then
       print (PyStr (''Analyzer '' @ sq @ fstr_opt analyzer @ sq @ '' created successfully.''))
     else
       and_then (print (PyStr ''Analyzer creation failed.'')) (\<lambda>_.
       and_then (eval (resp_json result_response)) (\<lambda>j.
       print (PyJson j))))))))))"

text \<open>Lines 38 to 94, and the call of the rest.\<close>

definition create_analyzer ::
  "env \<Rightarrow> nat \<Rightarrow> string \<Rightarrow> string option \<Rightarrow> string option \<Rightarrow> string option \<Rightarrow> unit prog" where
  "create_analyzer E n schema analyzer endpoint key =
     and_then (print (PyStr (''Creating '' @ fstr_opt analyzer))) (\<lambda>_.
     let hdrs = request_headers key ''application/json'';
         url = analyzer_url endpoint analyzer
     in
     and_then (print (PyStr (''DEBUG: URL = '' @ url))) (\<lambda>_.
     and_then (requests E DELETE url hdrs NoData) (\<lambda>response.
     and_then (print (PyInt (status_code response))) (\<lambda>_.
     and_then (time_sleep E 1) (\<lambda>_.
     and_then (requests E PUT url hdrs (TextData schema)) (\<lambda>response.
     and_then (print (PyInt (status_code response))) (\<lambda>_.
     if status_code response \<ge> 400 then
       and_then (print (PyStr ''ERROR: PUT request failed'')) (\<lambda>_.
       print (PyStr (''Response: '' @ resp_text response)))
     else
       create_analyzer_await E n analyzer hdrs response)))))))"

definition create_analyzer_try_body :: "env \<Rightarrow> nat \<Rightarrow> unit prog" where
  "create_analyzer_try_body E n =
     and_then (load_json_file E ''biz-card.json'') (\<lambda>schema_json.
     let card_schema = json_dumps E schema_json in
     and_then load_dotenv (\<lambda>_.
     let ai_svc_endpoint = getenv E ''ENDPOINT'';
         ai_svc_key = getenv E ''KEY'';
         analyzer = getenv E ''ANALYZER_NAME''
     in
     and_then (create_analyzer E n card_schema analyzer ai_svc_endpoint ai_svc_key) (\<lambda>_.
     print (PyStr nl))))"

definition create_analyzer_main :: "env \<Rightarrow> nat \<Rightarrow> unit prog" where
  "create_analyzer_main E n =
     and_then (os_system_clear E) (\<lambda>_. try_except_print (create_analyzer_try_body E n))"

section \<open>\<open>read-card.py\<close>\<close>

text \<open>Lines 171 to 183: the \<open>if\<close>/\<open>elif\<close> chain on \<open>field_data['type']\<close>. The
  subscript is evaluated again in each \<open>elif\<close> and gives the same object or raises at the
  first evaluation; a type outside the six prints nothing.\<close>

definition print_field :: "env \<Rightarrow> string \<times> json \<Rightarrow> unit prog" where
  "print_field E item =
     (let field_name = fst item; field_data = snd item in
      and_then (eval (py_getitem field_data ''type'')) (\<lambda>t.
      if t = JStr ''string'' then
        and_then (eval (py_getitem field_data ''valueString'')) (\<lambda>v.
        print (PyStr (field_name @ '': '' @ py_str E v)))
      else if t = JStr ''number'' then
        and_then (eval (py_getitem field_data ''valueNumber'')) (\<lambda>v.
        print (PyStr (field_name @ '': '' @ py_str E v)))
      else if t = JStr ''integer'' then
        and_then (eval (py_getitem field_data ''valueInteger'')) (\<lambda>v.
        print (PyStr (field_name @ '': '' @ py_str E v)))
      else if t = JStr ''date'' then
        and_then (eval (py_getitem field_data ''valueDate'')) (\<lambda>v.
        print (PyStr (field_name @ '': '' @ py_str E v)))
      else if t = JStr ''time'' then
        and_then (eval (py_getitem field_data ''valueTime'')) (\<lambda>v.
        print (PyStr (field_name @ '': '' @ py_str E v)))
      else if t = JStr ''array'' then
        and_then (eval (py_getitem field_data ''valueArray'')) (\<lambda>v.
        print (PyStr (field_name @ '': '' @ py_str E v)))
      else ret ()))"

text \<open>Lines 157 to 167: the body of \<open>for content in contents\<close>.\<close>

definition print_content :: "env \<Rightarrow> json \<Rightarrow> unit prog" where
  "print_content E content =
     and_then (eval (py_contains ''fields'' content)) (\<lambda>has_fields.
     if has_fields then
       and_then (eval (py_getitem content ''fields'')) (\<lambda>fields.
       and_then (eval (py_items fields)) (\<lambda>items.
       for_each (print_field E) items))
     else ret ())"

text \<open>Lines 138 to 189: what \<open>analyze_card\<close> does with the response and the status
  that the polling loop leaves. The \<open>print\<close> of line 149 is inside the \<open>with\<close> block, so
  the file is closed after it.\<close>

definition analyze_card_results :: "env \<Rightarrow> response \<Rightarrow> json \<Rightarrow> unit prog" where
  "analyze_card_results E result_response status =
     (if status = JStr ''Succeeded'' then
        and_then (print (PyStr (''Analysis succeeded:'' @ nl))) (\<lambda>_.
        and_then (eval (resp_json result_response)) (\<lambda>result_json.
        let output_file = ''results.json'' in
        and_then (dump_json_file E output_file result_json) (\<lambda>_.
        and_then (print (PyStr (''Response saved in '' @ output_file @ nl))) (\<lambda>_.
        and_then (close_file E output_file) (\<lambda>_.
        and_then (eval (py_getitem result_json ''result'')) (\<lambda>result.
        and_then (eval (py_getitem result ''contents'')) (\<lambda>contents.
        and_then (eval (py_iter contents)) (\<lambda>content_list.
        for_each (print_content E) content_list))))))))
      else
        and_then (print (PyStr (''Analysis failed with status: '' @ py_str E status @ nl))) (\<lambda>_.
        and_then (eval (resp_json result_response)) (\<lambda>result_json.
        and_then (print (PyStr ''Error details:'')) (\<lambda>_.
        print (PyJson result_json)))))"

text \<open>The URLs of lines 82 and 117.\<close>

definition analyze_url :: "string option \<Rightarrow> string option \<Rightarrow> string" where
  "analyze_url endpoint analyzer =
     fstr_opt endpoint @ ''/contentunderstanding/analyzers/'' @ fstr_opt analyzer
       @ '':analyze?api-version='' @ CU_VERSION"

definition results_url :: "env \<Rightarrow> string option \<Rightarrow> json \<Rightarrow> string" where
  "results_url E endpoint id_value =
     fstr_opt endpoint @ ''/contentunderstanding/analyzerResults/'' @ py_str E id_value
       @ ''?api-version='' @ CU_VERSION"

text \<open>Lines 99 to 189: what \<open>analyze_card\<close> does once the POST is accepted.\<close>

definition analyze_card_await ::
  "env \<Rightarrow> nat \<Rightarrow> string option \<Rightarrow> (string \<times> string option) list \<Rightarrow> response \<Rightarrow> unit prog" where
  "analyze_card_await E n endpoint hdrs response =
     and_then (eval (resp_json response)) (\<lambda>response_json.
     and_then (eval (py_get response_json ''id'')) (\<lambda>id_value.
     if \<not> py_truth id_value then
       print (PyStr ''ERROR: No operation ID returned from the API'')
     else
       and_then (print (PyStr ''Getting results...'')) (\<lambda>_.
       and_then (time_sleep E 1) (\<lambda>_.
       let result_url = results_url E endpoint id_value in
       and_then (requests E GET result_url hdrs NoData) (\<lambda>result_response.
       and_then (print (PyInt (status_code result_response))) (\<lambda>_.
       if status_code result_response \<ge> 400 then
         and_then (print (PyStr ''ERROR: Failed to retrieve analysis results'')) (\<lambda>_.
         print (PyStr (''Response: '' @ resp_text result_response)))
       else
         and_then (eval (resp_status result_response)) (\<lambda>status.
         and_then (poll_while_running E n result_url hdrs result_response status) (\<lambda>polled.
         analyze_card_results E (fst polled) (snd polled)))))))))"

text \<open>Lines 37 to 97, and the call of the rest.\<close>

definition analyze_card ::
  "env \<Rightarrow> nat \<Rightarrow> string \<Rightarrow> string option \<Rightarrow> string option \<Rightarrow> string option \<Rightarrow> unit prog" where
  "analyze_card E n image_file analyzer endpoint key =
     and_then (print (PyStr (''Analyzing '' @ image_file))) (\<lambda>_.
     and_then (read_binary_file E image_file) (\<lambda>image_data.
     and_then (print (PyStr ''Submitting request...'')) (\<lambda>_.
     let hdrs = request_headers key ''application/octet-stream'';
         url = analyze_url endpoint analyzer
     in
     and_then (requests E POST url hdrs (BytesData image_data)) (\<lambda>response.
     and_then (print (PyInt (status_code response))) (\<lambda>_.
     if status_code response \<ge> 400 then
       and_then (print (PyStr ''ERROR: Failed to submit image for analysis'')) (\<lambda>_.
       print (PyStr (''Response: '' @ resp_text response)))
     else
       analyze_card_await E n endpoint hdrs response)))))"

definition read_card_try_body :: "env \<Rightarrow> nat \<Rightarrow> unit prog" where
  "read_card_try_body E n =
     (let image_file = (if length (argv E) > 1 then argv E ! 1 else ''biz-card-1.png'') in
      and_then load_dotenv (\<lambda>_.
      let ai_svc_endpoint = getenv E ''ENDPOINT'';
          ai_svc_key = getenv E ''KEY'';
          analyzer = getenv E ''ANALYZER_NAME''
      in
      and_then (analyze_card E n image_file analyzer ai_svc_endpoint ai_svc_key) (\<lambda>_.
      print (PyStr nl))))"

definition read_card_main :: "env \<Rightarrow> nat \<Rightarrow> unit prog" where
  "read_card_main E n =
     and_then (os_system_clear E) (\<lambda>_. try_except_print (read_card_try_body E n))"

section \<open>\<open>search-app.py\<close>\<close>

text \<open>\<open>str.lower()\<close> on the ASCII letters; \<open>"quit"\<close> is the lower case of no string
  with a character outside ASCII.\<close>

definition lower_char :: "char \<Rightarrow> char" where
  "lower_char c =
     (case map_of (zip ''ABCDEFGHIJKLMNOPQRSTUVWXYZ'' ''abcdefghijklmnopqrstuvwxyz'') c of
        None \<Rightarrow> c
      | Some l \<Rightarrow> l)"

definition py_lower :: "string \<Rightarrow> string" where
  "py_lower s = map lower_char s"

definition py_input :: "env \<Rightarrow> string \<Rightarrow> string prog" where
  "py_input E prompt w = eval (input_reply E (n_input w)) (w @ [Input prompt])"

definition new_sdk_client :: "env \<Rightarrow> string option list \<Rightarrow> unit prog" where
  "new_sdk_client E args = and_then (emit (NewClient args)) (\<lambda>_. may_raise (new_client E args))"

definition client_search ::
  "env \<Rightarrow> string \<Rightarrow> string list \<Rightarrow> string list \<Rightarrow> bool \<Rightarrow> search_results prog" where
  "client_search E search_text select order_by include_total_count w =
     eval (search_reply E (n_search w))
       (w @ [Search search_text select order_by include_total_count])"

text \<open>Lines 88 to 107: the body of \<open>for document in found_documents\<close>.\<close>

definition print_document :: "env \<Rightarrow> json \<Rightarrow> unit prog" where
  "print_document E document =
     and_then (eval (py_getitem document ''metadata_storage_name'')) (\<lambda>name.
     and_then (print (PyStr (nl @ ''Document: '' @ py_str E name))) (\<lambda>_.
     and_then (print (PyStr '' - Locations:'')) (\<lambda>_.
     and_then (eval (py_getitem document ''locations'')) (\<lambda>locations.
     and_then (eval (py_iter locations)) (\<lambda>location_list.
     and_then (for_each (\<lambda>location. print (PyStr (''   - '' @ py_str E location))) location_list) (\<lambda>_.
     and_then (print (PyStr '' - People:'')) (\<lambda>_.
     and_then (eval (py_getitem document ''people'')) (\<lambda>people.
     and_then (eval (py_iter people)) (\<lambda>person_list.
     and_then (for_each (\<lambda>person. print (PyStr (''   - '' @ py_str E person))) person_list) (\<lambda>_.
     and_then (print (PyStr '' - Key phrases:'')) (\<lambda>_.
     and_then (eval (py_getitem document ''keyphrases'')) (\<lambda>keyphrases.
     and_then (eval (py_iter keyphrases)) (\<lambda>phrase_list.
     for_each (\<lambda>phrase. print (PyStr (''   - '' @ py_str E phrase))) phrase_list)))))))))))))"

text \<open>Lines 46 to 107: the \<open>while True\<close> loop; the fuel bounds the number of prompts.\<close>

fun search_loop :: "env \<Rightarrow> nat \<Rightarrow> unit prog" where
  "search_loop E 0 = (\<lambda>w. (OutOfFuel, w))"
| "search_loop E (Suc n) =
     and_then (py_input E (''Enter a query (or type '' @ sq @ ''quit'' @ sq @ '' to exit): '')) (\<lambda>query_text.
     if py_lower query_text = ''quit'' then ret ()
     else if length query_text = 0 then
       and_then (print (PyStr ''Please enter a query.'')) (\<lambda>_. search_loop E n)
     else
       and_then (os_system_clear E) (\<lambda>_.
       and_then (client_search E query_text
                   [''metadata_storage_name'', ''locations'', ''people'', ''keyphrases'']
                   [''metadata_storage_name''] True) (\<lambda>found_documents.
       and_then (print (PyStr (nl @ ''Search returned ''
                   @ (case total_count found_documents of None \<Rightarrow> ''None'' | Some c \<Rightarrow> str_int c)
                   @ '' documents:''))) (\<lambda>_.
       and_then (for_each (print_document E) (found found_documents)) (\<lambda>_.
       and_then (may_raise (stops_with found_documents)) (\<lambda>_.
       search_loop E n))))))"

definition search_app_try_body :: "env \<Rightarrow> nat \<Rightarrow> unit prog" where
  "search_app_try_body E n =
     and_then load_dotenv (\<lambda>_.
     let search_endpoint = getenv E ''SEARCH_ENDPOINT'';
         query_key = getenv E ''QUERY_KEY'';
         index = getenv E ''INDEX_NAME''
     in
     and_then (new_sdk_client E [search_endpoint, index, query_key]) (\<lambda>_.
     search_loop E n))"

definition search_app_main :: "env \<Rightarrow> nat \<Rightarrow> unit prog" where
  "search_app_main E n =
     and_then (os_system_clear E) (\<lambda>_. try_except_print (search_app_try_body E n))"

section \<open>\<open>document-analysis.py\<close>\<close>

definition begin_analyze_document_from_url :: "env \<Rightarrow> string \<Rightarrow> string \<Rightarrow> string \<Rightarrow> unit prog" where
  "begin_analyze_document_from_url E model_id document_url locale =
     and_then (emit (BeginAnalyze model_id document_url locale)) (\<lambda>_. may_raise (begin_analyze E))"

text \<open>\<open>poller.result().documents\<close>\<close>

definition poller_result_documents :: "env \<Rightarrow> (string \<Rightarrow> document_field option) list option prog" where
  "poller_result_documents E = and_then (emit PollerResult) (\<lambda>_. eval (poller_result E))"

text \<open>Lines 66 to 88: the body of \<open>for idx, receipt in enumerate(receipts.documents)\<close>;
  \<open>receipt_fields\<close> is the lookup \<open>receipt.fields.get\<close>.\<close>

definition print_receipt :: "(string \<Rightarrow> document_field option) \<Rightarrow> unit prog" where
  "print_receipt receipt_fields =
     and_then (case receipt_fields ''VendorName'' of
                 None \<Rightarrow> ret ()
               | Some vendor_name \<Rightarrow>
                   print (PyStr (nl @ ''Vendor Name: '' @ value_str vendor_name
                     @ '', with confidence '' @ confidence_str vendor_name @ ''.''))) (\<lambda>_.
     and_then (case receipt_fields ''CustomerName'' of
                 None \<Rightarrow> ret ()
               | Some customer_name \<Rightarrow>
                   print (PyStr (''Customer Name: '' @ sq @ value_str customer_name @ sq
                     @ '', with confidence '' @ confidence_str customer_name @ ''.''))) (\<lambda>_.
     case receipt_fields ''InvoiceTotal'' of
       None \<Rightarrow> ret ()
     | Some invoice_total \<Rightarrow>
         and_then (eval (case currency invoice_total of
                           None \<Rightarrow> Inl AttributeError
                         | Some sa \<Rightarrow> Inr sa)) (\<lambda>sa.
         print (PyStr (''Invoice Total: '' @ sq @ fst sa @ snd sa @ sq
           @ '', with confidence '' @ confidence_str invoice_total @ ''.'')))))"

definition document_analysis_try_body :: "env \<Rightarrow> unit prog" where
  "document_analysis_try_body E =
     and_then load_dotenv (\<lambda>_.
     let endpoint = getenv E ''ENDPOINT'';
         key = getenv E ''KEY'';
         fileUri = ''https://github.com/MicrosoftLearning/mslearn-ai-information-extraction/blob/main/Labfiles/prebuilt-doc-intelligence/sample-invoice/sample-invoice.pdf?raw=true'';
         fileLocale = ''en-US'';
         fileModelId = ''prebuilt-invoice''
     in
     and_then (print (PyStr (nl @ ''Connecting to Forms Recognizer at: '' @ fstr_opt endpoint))) (\<lambda>_.
     and_then (print (PyStr (''Analyzing invoice at: '' @ fileUri))) (\<lambda>_.
     and_then (new_sdk_client E [endpoint, key]) (\<lambda>_.
     and_then (begin_analyze_document_from_url E fileModelId fileUri fileLocale) (\<lambda>_.
     and_then (poller_result_documents E) (\<lambda>documents.
     and_then (eval (case documents of None \<Rightarrow> Inl TypeError | Some ds \<Rightarrow> Inr ds)) (\<lambda>receipts.
     for_each print_receipt receipts)))))))"

definition document_analysis_main :: "env \<Rightarrow> unit prog" where
  "document_analysis_main E =
     and_then (os_system_clear E) (\<lambda>_.
     and_then (try_except_print (document_analysis_try_body E)) (\<lambda>_.
     print (PyStr (nl @ ''Analysis complete.'' @ nl))))"

section \<open>Notions used in the properties\<close>

text \<open>\<open>emits P m\<close>: from every state, \<open>m\<close> only adds events to the trace, and each of
  them satisfies \<open>P\<close>. \<open>starts_with P m pre\<close>: the events that \<open>m\<close> adds begin with
  \<open>pre\<close>, whatever the environment answers, and those after \<open>pre\<close> satisfy \<open>P\<close>.\<close>

definition emits :: "(event \<Rightarrow> bool) \<Rightarrow> 'a prog \<Rightarrow> bool" where
  "emits P m \<longleftrightarrow> (\<forall>w. \<exists>evs. snd (m w) = w @ evs \<and> (\<forall>ev\<in>set evs. P ev))"

definition starts_with :: "(event \<Rightarrow> bool) \<Rightarrow> 'a prog \<Rightarrow> event list \<Rightarrow> bool" where
  "starts_with P m pre \<longleftrightarrow>
     (\<forall>w. \<exists>rest. snd (m w) = w @ pre @ rest \<and> (\<forall>ev\<in>set rest. P ev))"

text \<open>The status that the \<open>k\<close>-th HTTP request of a run fetches, and the \<open>i\<close>-th status
  that a polling loop compares with \<open>"Running"\<close> when it is entered in state \<open>w\<close> with
  \<open>status\<close>: first the one it is entered with, then those its own requests fetch.\<close>

definition fetched_status :: "env \<Rightarrow> nat \<Rightarrow> py_exception + json" where
  "fetched_status E k = (case http_reply E k of Inl e \<Rightarrow> Inl e | Inr r \<Rightarrow> resp_status r)"

definition polled_status :: "env \<Rightarrow> world \<Rightarrow> json \<Rightarrow> nat \<Rightarrow> py_exception + json" where
  "polled_status E w status i =
     (if i = 0 then Inr status else fetched_status E (n_http w + i - 1))"

text \<open>
  The printing of fields as the specification words it: each of the six types has its
  value key, and a field of one of these types gives the line \<open><field_name>: <value>\<close>.
  \<open>field_ok\<close> holds of a field that has a \<open>type\<close> and, when the type is one of the six,
  the value key of that type; \<open>content_ok\<close> holds of a content item that is a \<open>dict\<close>
  whose \<open>fields\<close>, if it has any, is a \<open>dict\<close> of such fields.
\<close>

definition value_key :: "json \<Rightarrow> string option" where
  "value_key t =
     map_of [(JStr ''string'', ''valueString''), (JStr ''number'', ''valueNumber''),
             (JStr ''integer'', ''valueInteger''), (JStr ''date'', ''valueDate''),
             (JStr ''time'', ''valueTime''), (JStr ''array'', ''valueArray'')] t"

definition field_line :: "env \<Rightarrow> string \<times> json \<Rightarrow> string list" where
  "field_line E item =
     (case py_getitem (snd item) ''type'' of
        Inl e \<Rightarrow> []
      | Inr t \<Rightarrow>
         (case value_key t of
            None \<Rightarrow> []
          | Some k \<Rightarrow>
             (case py_getitem (snd item) k of
                Inl e \<Rightarrow> []
              | Inr v \<Rightarrow> [fst item @ '': '' @ py_str E v])))"

definition field_ok :: "json \<Rightarrow> bool" where
  "field_ok field_data =
     (case py_getitem field_data ''type'' of
        Inl e \<Rightarrow> False
      | Inr t \<Rightarrow>
         (case value_key t of
            None \<Rightarrow> True
          | Some k \<Rightarrow> (case py_getitem field_data k of Inl e \<Rightarrow> False | Inr v \<Rightarrow> True)))"

definition content_fields :: "json \<Rightarrow> (string \<times> json) list" where
  "content_fields content =
     (case content of
        JObj kvs \<Rightarrow> (case map_of kvs ''fields'' of Some (JObj fs) \<Rightarrow> fs | _ \<Rightarrow> [])
      | _ \<Rightarrow> [])"

definition content_ok :: "json \<Rightarrow> bool" where
  "content_ok content =
     (case content of
        JObj kvs \<Rightarrow>
         (case map_of kvs ''fields'' of
            None \<Rightarrow> True
          | Some (JObj fs) \<Rightarrow> list_all (\<lambda>item. field_ok (snd item)) fs
          | Some _ \<Rightarrow> False)
      | _ \<Rightarrow> False)"

definition content_lines :: "env \<Rightarrow> json \<Rightarrow> string list" where
  "content_lines E content = concat (map (field_line E) (content_fields content))"

section \<open>Example runs\<close>

text \<open>An environment in which every file access, sleep and client construction
  succeeds and every HTTP request fails; the examples change its replies.\<close>

definition example_env :: env where
  "example_env =
     \<lparr>os_name = ''posix'', argv = [''read-card.py''],
      getenv = [''ENDPOINT'' \<mapsto> ''https://svc'', ''KEY'' \<mapsto> ''k'', ''ANALYZER_NAME'' \<mapsto> ''biz''],
      json_dumps = (\<lambda>j. ''{}''), py_repr = (\<lambda>j. ''[]''),
      read_json = (\<lambda>p. Inr (JObj [])), read_bytes = (\<lambda>p. Inr ''png''),
      write_json = (\<lambda>p j. None), close_reply = (\<lambda>p. None),
      http_reply = (\<lambda>k. Inl RequestException),
      sleep_reply = (\<lambda>k. None), input_reply = (\<lambda>k. Inr ''quit''),
      new_client = (\<lambda>a. None), search_reply = (\<lambda>k. Inl AzureError),
      begin_analyze = None, poller_result = Inr (Some [])\<rparr>"

definition example_response :: "int \<Rightarrow> json \<Rightarrow> response" where
  "example_response code body =
     \<lparr>status_code = code, resp_text = ''text'',
      resp_headers = [''Operation-Location'' \<mapsto> ''https://svc/op''],
      json_body = Some body\<rparr>"

definition status_body :: "string \<Rightarrow> json" where
  "status_body s = JObj [(''status'', JStr s)]"

text \<open>Every request is answered with HTTP status 200 and a body that carries an
  operation id and the status \<open>"NotStarted"\<close>.\<close>

definition not_started_body :: json where
  "not_started_body = JObj [(''id'', JStr ''op1''), (''status'', JStr ''NotStarted'')]"

definition not_started_env :: env where
  "not_started_env = example_env\<lparr>http_reply := (\<lambda>k. Inr (example_response 200 not_started_body))\<rparr>"

text \<open>Every request is answered with status \<open>"Running"\<close>.\<close>

definition running_env :: env where
  "running_env =
     example_env\<lparr>http_reply := (\<lambda>k. Inr (example_response 200 (status_body ''Running'')))\<rparr>"

text \<open>The first two requests are answered with \<open>"Running"\<close>, the later ones with
  \<open>"Succeeded"\<close>.\<close>

definition two_polls_env :: env where
  "two_polls_env =
     example_env\<lparr>http_reply :=
       (\<lambda>k. Inr (example_response 200 (status_body (if k < 2 then ''Running'' else ''Succeeded''))))\<rparr>"

text \<open>Every request is answered with status \<open>"Running"\<close>, and Ctrl-C arrives during
  the third sleep.\<close>

definition interrupted_poll_env :: env where
  "interrupted_poll_env =
     example_env\<lparr>http_reply := (\<lambda>k. Inr (example_response 200 (status_body ''Running''))),
                 sleep_reply := (\<lambda>k. if k = 2 then Some KeyboardInterrupt else None)\<rparr>"

text \<open>The service refuses the DELETE with HTTP status 500 and answers every later
  request with 200 and the status \<open>"Succeeded"\<close>.\<close>

definition refused_delete_env :: env where
  "refused_delete_env =
     example_env\<lparr>http_reply :=
       (\<lambda>k. Inr (example_response (if k = 0 then 500 else 200) (status_body ''Succeeded'')))\<rparr>"

text \<open>Every request is answered with HTTP status 401.\<close>

definition unauthorized_env :: env where
  "unauthorized_env =
     example_env\<lparr>http_reply := (\<lambda>k. Inr (example_response 401 JNull))\<rparr>"

text \<open>The DELETE is answered with 204; Ctrl-C arrives during the sleep that follows.\<close>

definition interrupted_env :: env where
  "interrupted_env =
     example_env\<lparr>http_reply := (\<lambda>k. Inr (example_response 204 JNull)),
                 sleep_reply := (\<lambda>k. Some KeyboardInterrupt)\<rparr>"

text \<open>The files of the scripts cannot be opened.\<close>

definition no_files_env :: env where
  "no_files_env =
     example_env\<lparr>read_json := (\<lambda>p. Inl OSError), read_bytes := (\<lambda>p. Inl OSError)\<rparr>"

text \<open>The SDK clients cannot be constructed.\<close>

definition no_client_env :: env where
  "no_client_env = example_env\<lparr>new_client := (\<lambda>a. Some AzureError)\<rparr>"

text \<open>Two analysis results with status \<open>"Succeeded"\<close>. In the first, the field
  \<open>Company\<close> has type \<open>string\<close> and no \<open>valueString\<close>, and the field \<open>Name\<close> after it is
  complete. In the second, every field of one of the six types has its value key, and
  \<open>Logo\<close> is of another type.\<close>

definition partial_card :: json where
  "partial_card =
     JObj [(''status'', JStr ''Succeeded''),
           (''result'', JObj [(''contents'', JArr [JObj [(''fields'', JObj
              [(''Company'', JObj [(''type'', JStr ''string'')]),
               (''Name'', JObj [(''type'', JStr ''string''), (''valueString'', JStr ''Ada'')])])]])])]"

definition complete_card :: json where
  "complete_card =
     JObj [(''status'', JStr ''Succeeded''),
           (''result'', JObj [(''contents'', JArr [JObj [(''fields'', JObj
              [(''Name'', JObj [(''type'', JStr ''string''), (''valueString'', JStr ''Ada'')]),
               (''Floor'', JObj [(''type'', JStr ''integer''), (''valueInteger'', JInt 3)]),
               (''Logo'', JObj [(''type'', JStr ''object'')])])]])])]"

section \<open>Rules for running the model\<close>

lemma n_http_simps [simp]:
  "n_http [] = 0"
  "n_http (w @ evs) = n_http w + n_http evs"
  "n_http (ev # evs) = (if is_http ev then Suc (n_http evs) else n_http evs)"
  by (simp_all add: n_http_def)

lemma n_sleep_simps [simp]:
  "n_sleep [] = 0"
  "n_sleep (w @ evs) = n_sleep w + n_sleep evs"
  "n_sleep (ev # evs) = (if is_sleep ev then Suc (n_sleep evs) else n_sleep evs)"
  by (simp_all add: n_sleep_def)

lemma n_input_simps [simp]:
  "n_input [] = 0"
  "n_input (w @ evs) = n_input w + n_input evs"
  "n_input (ev # evs) = (if is_input ev then Suc (n_input evs) else n_input evs)"
  by (simp_all add: n_input_def)

lemma n_search_simps [simp]:
  "n_search [] = 0"
  "n_search (w @ evs) = n_search w + n_search evs"
  "n_search (ev # evs) = (if is_search ev then Suc (n_search evs) else n_search evs)"
  by (simp_all add: n_search_def)

lemma ret_apply [simp]: "ret x w = (Return x, w)"
  by (simp add: ret_def)

lemma raise_apply [simp]: "raise e w = (Raise e, w)"
  by (simp add: raise_def)

lemma emit_apply [simp]: "emit ev w = (Return (), w @ [ev])"
  by (simp add: emit_def)

lemma print_apply [simp]: "print x w = (Return (), w @ [Print x])"
  by (simp add: print_def)

lemma and_then_Return: "m w = (Return x, w') \<Longrightarrow> and_then m f w = f x w'"
  by (simp add: and_then_def)

lemma and_then_Raise: "m w = (Raise e, w') \<Longrightarrow> and_then m f w = (Raise e, w')"
  by (simp add: and_then_def)

lemma and_then_OutOfFuel: "m w = (OutOfFuel, w') \<Longrightarrow> and_then m f w = (OutOfFuel, w')"
  by (simp add: and_then_def)

lemma and_then_ret [simp]: "and_then (ret x) f = f x"
  by (rule ext) (simp add: and_then_def)

lemma and_then_raise [simp]: "and_then (raise e) f w = (Raise e, w)"
  by (simp add: and_then_def)

lemma and_then_emit [simp]: "and_then (emit ev) f w = f () (w @ [ev])"
  by (simp add: and_then_def)

lemma and_then_print [simp]: "and_then (print x) f w = f () (w @ [Print x])"
  by (simp add: and_then_def)

lemma and_then_Pair_Raise [simp]: "and_then (Pair (Raise e)) f = Pair (Raise e)"
  by (rule ext) (simp add: and_then_def)

lemma and_then_Pair_Return [simp]: "and_then (Pair (Return x)) f = f x"
  by (rule ext) (simp add: and_then_def)

lemma eval_Inr [simp]: "eval (Inr x) = ret x"
  by (simp add: eval_def)

lemma eval_Inl [simp]: "eval (Inl e) = raise e"
  by (simp add: eval_def)

lemma may_raise_None [simp]: "may_raise None = ret ()"
  by (simp add: may_raise_def)

lemma may_raise_Some [simp]: "may_raise (Some e) = raise e"
  by (simp add: may_raise_def)

lemma and_then_time_sleep:
  "and_then (time_sleep E secs) f w =
     (case sleep_reply E (n_sleep w) of
        None \<Rightarrow> f () (w @ [Sleep secs])
      | Some e \<Rightarrow> (Raise e, w @ [Sleep secs]))"
  by (simp add: and_then_def time_sleep_def split: option.split)

lemma and_then_requests:
  "and_then (requests E m url hdrs d) f w =
     (case http_reply E (n_http w) of
        Inr r \<Rightarrow> f r (w @ [Http m url hdrs d])
      | Inl e \<Rightarrow> (Raise e, w @ [Http m url hdrs d]))"
  by (simp add: and_then_def requests_def split: sum.split)

lemma and_then_assoc: "and_then (and_then m f) g = and_then m (\<lambda>x. and_then (f x) g)"
  by (rule ext) (simp add: and_then_def split: prod.split outcome.split)

text \<open>The loop, one iteration at a time.\<close>

lemma poll_Suc_Running:
  "poll_while_running E (Suc n) url hdrs r0 (JStr ''Running'') w =
     (case sleep_reply E (n_sleep w) of
        Some e \<Rightarrow> (Raise e, w @ [Sleep 1])
      | None \<Rightarrow>
         (case http_reply E (n_http w) of
            Inl e \<Rightarrow> (Raise e, w @ [Sleep 1, Http GET url hdrs NoData])
          | Inr r \<Rightarrow>
             (case resp_status r of
                Inl e \<Rightarrow> (Raise e, w @ [Sleep 1, Http GET url hdrs NoData])
              | Inr s \<Rightarrow> poll_while_running E n url hdrs r s (w @ [Sleep 1, Http GET url hdrs NoData]))))"
  by (simp add: and_then_time_sleep and_then_requests split: option.split sum.split)

lemma poll_not_Running:
  "s0 \<noteq> JStr ''Running'' \<Longrightarrow> poll_while_running E n url hdrs r0 s0 w = (Return (r0, s0), w)"
  by (cases n) simp_all

lemma poll_not_Running_fun:
  "s0 \<noteq> JStr ''Running'' \<Longrightarrow> poll_while_running E n url hdrs r0 s0 = ret (r0, s0)"
  by (cases n) simp_all

lemma poll_Running_fun:
  "poll_while_running E (Suc n) url hdrs r0 (JStr ''Running'') =
     and_then (time_sleep E 1) (\<lambda>_.
     and_then (requests E GET url hdrs NoData) (\<lambda>r.
     and_then (eval (resp_status r)) (\<lambda>s.
     poll_while_running E n url hdrs r s)))"
  by simp

lemma poll_0_Running:
  "poll_while_running E 0 url hdrs r0 (JStr ''Running'') w = (OutOfFuel, w)"
  by simp

declare poll_while_running.simps [simp del]

lemma polled_status_step:
  "http_reply E (n_http w) = Inr r1 \<Longrightarrow> resp_status r1 = Inr s1 \<Longrightarrow>
   polled_status E (w @ [Sleep 1, Http GET url hdrs NoData]) s1 i = polled_status E w s0 (Suc i)"
  by (simp add: polled_status_def fetched_status_def)

text \<open>The example environments and responses, field by field.\<close>

lemma example_response_simps [simp]:
  "status_code (example_response code body) = code"
  "resp_text (example_response code body) = ''text''"
  "resp_headers (example_response code body) = [''Operation-Location'' \<mapsto> ''https://svc/op'']"
  "json_body (example_response code body) = Some body"
  "resp_json (example_response code body) = Inr body"
  by (simp_all add: example_response_def resp_json_def)

lemma resp_status_example [simp]:
  "resp_status (example_response code (status_body s)) = Inr (JStr s)"
  by (simp add: resp_status_def status_body_def)

lemma example_env_simps [simp]:
  "os_name example_env = ''posix''"
  "argv example_env = [''read-card.py'']"
  "getenv example_env = [''ENDPOINT'' \<mapsto> ''https://svc'', ''KEY'' \<mapsto> ''k'', ''ANALYZER_NAME'' \<mapsto> ''biz'']"
  "json_dumps example_env = (\<lambda>j. ''{}'')"
  "py_repr example_env = (\<lambda>j. ''[]'')"
  "read_json example_env = (\<lambda>p. Inr (JObj []))"
  "read_bytes example_env = (\<lambda>p. Inr ''png'')"
  "write_json example_env = (\<lambda>p j. None)"
  "close_reply example_env = (\<lambda>p. None)"
  "http_reply example_env = (\<lambda>k. Inl RequestException)"
  "sleep_reply example_env = (\<lambda>k. None)"
  "input_reply example_env = (\<lambda>k. Inr ''quit'')"
  "new_client example_env = (\<lambda>a. None)"
  "search_reply example_env = (\<lambda>k. Inl AzureError)"
  "begin_analyze example_env = None"
  "poller_result example_env = Inr (Some [])"
  by (simp_all add: example_env_def)

lemmas run_simps = and_then_time_sleep and_then_requests load_json_file_def read_binary_file_def
  dump_json_file_def os_system_clear_def load_dotenv_def and_then_assoc
  poll_not_Running_fun poll_Running_fun Let_def

section \<open>What a statement adds to the trace\<close>

lemma emits_and_then:
  assumes "emits P m" and "\<And>x. emits P (f x)"
  shows "emits P (and_then m f)"
  unfolding emits_def
proof
  fix w
  obtain evs where evs: "snd (m w) = w @ evs" "\<forall>ev\<in>set evs. P ev"
    using assms(1) unfolding emits_def by blast
  obtain r w1 where mw: "m w = (r, w1)" by (cases "m w")
  show "\<exists>evs. snd (and_then m f w) = w @ evs \<and> (\<forall>ev\<in>set evs. P ev)"
  proof (cases r)
    case (Return x)
    obtain evs' where evs': "snd (f x w1) = w1 @ evs'" "\<forall>ev\<in>set evs'. P ev"
      using assms(2) unfolding emits_def by blast
    have "snd (and_then m f w) = w @ (evs @ evs')"
      using mw Return evs evs' by (simp add: and_then_Return)
    moreover have "\<forall>ev\<in>set (evs @ evs'). P ev" using evs evs' by auto
    ultimately show ?thesis by blast
  next
    case (Raise e)
    then show ?thesis using mw evs by (auto simp: and_then_Raise)
  next
    case OutOfFuel
    then show ?thesis using mw evs by (auto simp: and_then_OutOfFuel)
  qed
qed

lemma emits_ret [simp]: "emits P (ret x)"
  by (simp add: emits_def)

lemma emits_raise [simp]: "emits P (raise e)"
  by (simp add: emits_def)

lemma emits_out_of_fuel [simp]: "emits P (\<lambda>w. (OutOfFuel, w))"
  by (simp add: emits_def)

lemma emits_eval [simp]: "emits P (eval r)"
  by (cases r) simp_all

lemma emits_may_raise [simp]: "emits P (may_raise r)"
  by (cases r) simp_all

lemma emits_emit: "P ev \<Longrightarrow> emits P (emit ev)"
  by (simp add: emits_def)

lemma emits_print: "P (Print x) \<Longrightarrow> emits P (print x)"
  by (simp add: emits_def)

lemma emits_time_sleep: "P (Sleep secs) \<Longrightarrow> emits P (time_sleep E secs)"
  by (auto simp: emits_def time_sleep_def may_raise_def split: option.split)

lemma emits_requests: "P (Http m url hdrs d) \<Longrightarrow> emits P (requests E m url hdrs d)"
  by (auto simp: emits_def requests_def eval_def split: sum.split)

lemma emits_for_each: "(\<And>x. emits P (body x)) \<Longrightarrow> emits P (for_each body xs)"
  by (induction xs) (simp_all add: emits_and_then)

lemma emits_poll_while_running:
  "P (Sleep 1) \<Longrightarrow> P (Http GET url hdrs NoData) \<Longrightarrow> emits P (poll_while_running E n url hdrs r s)"
  by (induction n arbitrary: r s)
     (auto simp: poll_while_running.simps intro!: emits_and_then emits_time_sleep emits_requests)

lemma emits_True_extends: "emits (\<lambda>ev. True) m \<Longrightarrow> \<exists>evs. snd (m w) = w @ evs"
  unfolding emits_def by blast

lemma starts_with_nil: "emits P m \<Longrightarrow> starts_with P m []"
  by (simp add: emits_def starts_with_def)

lemma starts_with_emit:
  assumes "starts_with P (f ()) pre"
  shows "starts_with P (and_then (emit ev) f) (ev # pre)"
  unfolding starts_with_def
proof
  fix w
  from assms obtain rest where "snd (f () (w @ [ev])) = (w @ [ev]) @ pre @ rest" "\<forall>ev\<in>set rest. P ev"
    unfolding starts_with_def by blast
  then show "\<exists>rest. snd (and_then (emit ev) f w) = w @ (ev # pre) @ rest \<and> (\<forall>ev\<in>set rest. P ev)"
    by (intro exI[of _ rest]) simp
qed

lemma starts_with_print:
  "starts_with P (f ()) pre \<Longrightarrow> starts_with P (and_then (print x) f) (Print x # pre)"
  unfolding print_def by (rule starts_with_emit)

lemma starts_with_and_then:
  assumes "starts_with P m pre" and "\<And>x. emits P (f x)"
  shows "starts_with P (and_then m f) pre"
  unfolding starts_with_def
proof
  fix w
  from assms(1) obtain rest where rest: "snd (m w) = w @ pre @ rest" "\<forall>ev\<in>set rest. P ev"
    unfolding starts_with_def by blast
  obtain r w1 where mw: "m w = (r, w1)" by (cases "m w")
  show "\<exists>rest. snd (and_then m f w) = w @ pre @ rest \<and> (\<forall>ev\<in>set rest. P ev)"
  proof (cases r)
    case (Return x)
    from assms(2) obtain evs where evs: "snd (f x w1) = w1 @ evs" "\<forall>ev\<in>set evs. P ev"
      unfolding emits_def by blast
    have "snd (and_then m f w) = w @ pre @ (rest @ evs)"
      using mw Return rest evs by (simp add: and_then_Return)
    moreover have "\<forall>ev\<in>set (rest @ evs). P ev" using rest evs by auto
    ultimately show ?thesis by blast
  next
    case (Raise e)
    then show ?thesis using mw rest by (auto simp: and_then_Raise)
  next
    case OutOfFuel
    then show ?thesis using mw rest by (auto simp: and_then_OutOfFuel)
  qed
qed

lemma starts_with_try_except_print:
  assumes "starts_with P body pre" and "\<And>e. P (Print (PyExn e))"
  shows "starts_with P (try_except_print body) pre"
  unfolding starts_with_def
proof
  fix w
  from assms(1) obtain rest where rest: "snd (body w) = w @ pre @ rest" "\<forall>ev\<in>set rest. P ev"
    unfolding starts_with_def by blast
  obtain r w1 where bw: "body w = (r, w1)" by (cases "body w")
  show "\<exists>rest. snd (try_except_print body w) = w @ pre @ rest \<and> (\<forall>ev\<in>set rest. P ev)"
  proof (cases r)
    case (Raise e)
    show ?thesis
    proof (cases "is_Exception e")
      case True
      have "snd (try_except_print body w) = w @ pre @ (rest @ [Print (PyExn e)])"
        using bw Raise True rest by (simp add: try_except_print_def)
      moreover have "\<forall>ev\<in>set (rest @ [Print (PyExn e)]). P ev" using rest assms(2) by auto
      ultimately show ?thesis by blast
    next
      case False
      then show ?thesis using bw Raise rest by (auto simp: try_except_print_def)
    qed
  qed (use bw rest in \<open>auto simp: try_except_print_def\<close>)
qed

lemmas emits_intros = conjI impI TrueI emits_and_then emits_eval emits_may_raise emits_ret emits_raise
  emits_print emits_emit emits_time_sleep emits_requests emits_for_each emits_poll_while_running

lemma emits_print_field: "(\<And>x. P (Print x)) \<Longrightarrow> emits P (print_field E item)"
  unfolding print_field_def Let_def
  by (intro emits_intros | simp only: split: if_split | assumption)+

lemma emits_print_content: "(\<And>x. P (Print x)) \<Longrightarrow> emits P (print_content E content)"
  unfolding print_content_def
  by (intro emits_intros emits_print_field | simp only: split: if_split | assumption)+

lemma emits_dump_json_file: "emits (\<lambda>ev. True) (dump_json_file E path j)"
  unfolding dump_json_file_def by (intro emits_intros)

lemma emits_analyze_card_results: "emits (\<lambda>ev. True) (analyze_card_results E r s)"
  unfolding analyze_card_results_def close_file_def Let_def
  by (intro emits_intros emits_print_content emits_dump_json_file | simp only: split: if_split)+

lemma emits_analyze_card_await: "emits (\<lambda>ev. True) (analyze_card_await E n endpoint hdrs response)"
  unfolding analyze_card_await_def Let_def
  by (intro emits_intros emits_analyze_card_results | simp only: split: if_split)+

lemma emits_create_analyzer_await: "emits (\<lambda>ev. True) (create_analyzer_await E n analyzer hdrs response)"
  unfolding create_analyzer_await_def Let_def
  by (intro emits_intros | simp only: split: if_split)+

section \<open>The polling loop: when it exits\<close>

text \<open>
  Both \<open>create_analyzer\<close> and \<open>analyze_card\<close> run \<open>poll_while_running\<close> on the status
  of their first GET, so what holds of the loop holds of both. When the loop returns, it
  has compared some number \<open>k\<close> of statuses equal to \<open>"Running"\<close>, added a sleep and a GET
  for each of them, and stopped at the first status that is something else.
\<close>

lemma poll_return:
  "poll_while_running E n url hdrs r0 s0 w = (Return (r, s), w') \<Longrightarrow>
   s \<noteq> JStr ''Running'' \<and>
   (\<exists>k. polled_status E w s0 k = Inr s \<and>
        (\<forall>i<k. polled_status E w s0 i = Inr (JStr ''Running'')) \<and>
        (if k = 0 then r = r0 else http_reply E (n_http w + k - 1) = Inr r) \<and>
        w' = w @ concat (replicate k [Sleep 1, Http GET url hdrs NoData]))"
proof (induction n arbitrary: r0 s0 w)
  case 0
  then show ?case
    by (cases "s0 = JStr ''Running''")
       (auto simp: poll_0_Running poll_not_Running polled_status_def intro!: exI[of _ 0])
next
  case (Suc n)
  show ?case
  proof (cases "s0 = JStr ''Running''")
    case False
    with Suc.prems show ?thesis
      by (auto simp: poll_not_Running polled_status_def intro!: exI[of _ 0])
  next
    case True
    let ?w1 = "w @ [Sleep 1, Http GET url hdrs NoData]"
    from Suc.prems True obtain r1 s1 where
      sl: "sleep_reply E (n_sleep w) = None" and
      rp: "http_reply E (n_http w) = Inr r1" and
      st: "resp_status r1 = Inr s1" and
      rec: "poll_while_running E n url hdrs r1 s1 ?w1 = (Return (r, s), w')"
      by (auto simp: poll_Suc_Running split: option.splits sum.splits)
    from Suc.IH[OF rec] obtain k where
      ne: "s \<noteq> JStr ''Running''" and
      k1: "polled_status E ?w1 s1 k = Inr s" and
      k2: "\<forall>i<k. polled_status E ?w1 s1 i = Inr (JStr ''Running'')" and
      k3: "if k = 0 then r = r1 else http_reply E (n_http ?w1 + k - 1) = Inr r" and
      k5: "w' = ?w1 @ concat (replicate k [Sleep 1, Http GET url hdrs NoData])"
      by blast
    note shift = polled_status_step[OF rp st, of url hdrs _ s0]
    have a: "polled_status E w s0 (Suc k) = Inr s" using k1 shift by simp
    have b: "\<forall>i<Suc k. polled_status E w s0 i = Inr (JStr ''Running'')"
    proof (intro allI impI)
      fix i assume "i < Suc k"
      show "polled_status E w s0 i = Inr (JStr ''Running'')"
      proof (cases i)
        case 0
        then show ?thesis using True by (simp add: polled_status_def)
      next
        case (Suc j)
        then show ?thesis using k2 shift \<open>i < Suc k\<close> by simp
      qed
    qed
    have c: "http_reply E (n_http w + Suc k - 1) = Inr r"
      using k3 rp by (cases k) simp_all
    have e: "w' = w @ concat (replicate (Suc k) [Sleep 1, Http GET url hdrs NoData])"
      using k5 by simp
    show ?thesis using ne a b c e by (intro conjI exI[of _ "Suc k"]) simp_all
  qed
qed

text \<open>
  Claim C1: for every sequence of statuses that the status endpoint returns, the polling
  loops of \<open>create_analyzer\<close> and \<open>analyze_card\<close> keep issuing GET requests until the
  fetched status is terminal, so that when either loop exits the last status fetched is
  \<open>"Succeeded"\<close> or \<open>"Failed"\<close>. The comments above the two loops say the same ("We loop
  until status changes to one of the terminal states", "Keep polling until the analysis
  is complete"). The loops do not do it: their guard is \<open>status == "Running"\<close>, and an
  operation that the service reports as \<open>"NotStarted"\<close> ends them at the first GET. In the
  two runs below every request is answered with code 200 and the body
  \<open>{"id": "op1", "status": "NotStarted"}\<close>. \<open>create_analyzer\<close> issues its one GET, prints
  \<open>NotStarted\<close> and reports that the creation failed; \<open>analyze_card\<close> issues its one GET
  and reports that the analysis failed with status \<open>NotStarted\<close>. Neither fetches the
  status a second time, while the operation has not reached a terminal state.
\<close>

theorem poll_exits_on_NotStarted:
  "create_analyzer not_started_env 5 ''{}'' (Some ''biz'') (Some ''https://svc'') (Some ''k'') [] =
     (Return (),
      [Print (PyStr ''Creating biz''),
       Print (PyStr (''DEBUG: URL = '' @ analyzer_url (Some ''https://svc'') (Some ''biz''))),
       Http DELETE (analyzer_url (Some ''https://svc'') (Some ''biz''))
         (request_headers (Some ''k'') ''application/json'') NoData,
       Print (PyInt 200), Sleep 1,
       Http PUT (analyzer_url (Some ''https://svc'') (Some ''biz''))
         (request_headers (Some ''k'') ''application/json'') (TextData ''{}''),
       Print (PyInt 200), Sleep 1,
       Http GET ''https://svc/op'' (request_headers (Some ''k'') ''application/json'') NoData,
       Print (PyJson (JStr ''NotStarted'')),
       Print (PyStr ''Analyzer creation failed.''),
       Print (PyJson not_started_body)]) \<and>
   analyze_card not_started_env 5 ''biz-card-1.png'' (Some ''biz'') (Some ''https://svc'') (Some ''k'') [] =
     (Return (),
      [Print (PyStr ''Analyzing biz-card-1.png''),
       ReadFile ''biz-card-1.png'',
       Print (PyStr ''Submitting request...''),
       Http POST (analyze_url (Some ''https://svc'') (Some ''biz''))
         (request_headers (Some ''k'') ''application/octet-stream'') (BytesData ''png''),
       Print (PyInt 200),
       Print (PyStr ''Getting results...''),
       Sleep 1,
       Http GET (results_url example_env (Some ''https://svc'') (JStr ''op1''))
         (request_headers (Some ''k'') ''application/octet-stream'') NoData,
       Print (PyInt 200),
       Print (PyStr (''Analysis failed with status: NotStarted'' @ nl)),
       Print (PyStr ''Error details:''),
       Print (PyJson not_started_body)])"
proof -
  have status: "resp_status (example_response 200 not_started_body) = Inr (JStr ''NotStarted'')"
    by (simp add: resp_status_def not_started_body_def)
  have ident: "py_get not_started_body ''id'' = Inr (JStr ''op1'')"
    by (simp add: not_started_body_def)
  have url: "results_url not_started_env (Some ''https://svc'') (JStr ''op1'') =
      results_url example_env (Some ''https://svc'') (JStr ''op1'')"
    by (simp add: results_url_def py_str_def)
  show ?thesis
    by (simp add: create_analyzer_def create_analyzer_await_def analyze_card_def
          analyze_card_await_def analyze_card_results_def not_started_env_def run_simps
          status ident url[unfolded not_started_env_def] py_truth_def py_str_def)
qed

section \<open>The polling loop: termination\<close>

lemma poll_terminates_aux:
  "polled_status E w s0 k \<noteq> Inr (JStr ''Running'') \<Longrightarrow> k \<le> m \<Longrightarrow>
   fst (poll_while_running E m url hdrs r0 s0 w) \<noteq> OutOfFuel"
proof (induction k arbitrary: m w r0 s0)
  case 0
  then show ?case by (simp add: polled_status_def poll_not_Running)
next
  case (Suc k)
  show ?case
  proof (cases "s0 = JStr ''Running''")
    case False
    then show ?thesis by (simp add: poll_not_Running)
  next
    case True
    from Suc.prems(2) obtain m' where m: "m = Suc m'" "k \<le> m'" by (cases m) auto
    show ?thesis
    proof (cases "sleep_reply E (n_sleep w)")
      case (Some e)
      then show ?thesis using True m by (simp add: poll_Suc_Running)
    next
      case None
      show ?thesis
      proof (cases "http_reply E (n_http w)")
        case (Inl e)
        then show ?thesis using True m None by (simp add: poll_Suc_Running)
      next
        case (Inr r1)
        show ?thesis
        proof (cases "resp_status r1")
          case (Inl e)
          then show ?thesis using True m None Inr by (simp add: poll_Suc_Running)
        next
          case (Inr s1)
          have "polled_status E (w @ [Sleep 1, Http GET url hdrs NoData]) s1 k \<noteq> Inr (JStr ''Running'')"
            using Suc.prems(1) polled_status_step[OF \<open>http_reply E (n_http w) = Inr r1\<close> Inr, of url hdrs k s0]
            by simp
          from Suc.IH[OF this m(2)] show ?thesis
            using True m None \<open>http_reply E (n_http w) = Inr r1\<close> Inr by (simp add: poll_Suc_Running)
        qed
      qed
    qed
  qed
qed

lemma poll_diverges_aux:
  "\<forall>k. polled_status E w s0 k = Inr (JStr ''Running'') \<Longrightarrow> \<forall>k. sleep_reply E k = None \<Longrightarrow>
   fst (poll_while_running E n url hdrs r0 s0 w) = OutOfFuel"
proof (induction n arbitrary: w r0 s0)
  case 0
  from "0.prems"(1) have "polled_status E w s0 0 = Inr (JStr ''Running'')" by blast
  then have "s0 = JStr ''Running''" by (simp add: polled_status_def)
  then show ?case by (simp add: poll_0_Running)
next
  case (Suc n)
  from Suc.prems(1) have "polled_status E w s0 0 = Inr (JStr ''Running'')" by blast
  then have s0: "s0 = JStr ''Running''" by (simp add: polled_status_def)
  from Suc.prems(1) have "polled_status E w s0 1 = Inr (JStr ''Running'')" by blast
  then have "fetched_status E (n_http w) = Inr (JStr ''Running'')" by (simp add: polled_status_def)
  then obtain r1 where r1: "http_reply E (n_http w) = Inr r1" "resp_status r1 = Inr (JStr ''Running'')"
    by (auto simp: fetched_status_def split: sum.splits)
  have "\<forall>k. polled_status E (w @ [Sleep 1, Http GET url hdrs NoData]) (JStr ''Running'') k = Inr (JStr ''Running'')"
    using Suc.prems(1) polled_status_step[OF r1, of url hdrs _ s0] by simp
  from Suc.IH[OF this Suc.prems(2)] show ?case
    using s0 r1 Suc.prems(2) by (simp add: poll_Suc_Running)
qed

lemma poll_running_aux:
  "\<forall>k. polled_status E w s0 k = Inr (JStr ''Running'') \<Longrightarrow>
   fst (poll_while_running E n url hdrs r0 s0 w) = OutOfFuel \<or>
   (\<exists>k e. sleep_reply E k = Some e \<and> fst (poll_while_running E n url hdrs r0 s0 w) = Raise e)"
proof (induction n arbitrary: w r0 s0)
  case 0
  from "0.prems" have "polled_status E w s0 0 = Inr (JStr ''Running'')" by (rule spec)
  then have "s0 = JStr ''Running''" by (simp add: polled_status_def)
  then show ?case by (simp add: poll_0_Running)
next
  case (Suc n)
  from Suc.prems have "polled_status E w s0 0 = Inr (JStr ''Running'')" by (rule spec)
  then have s0: "s0 = JStr ''Running''" by (simp add: polled_status_def)
  show ?case
  proof (cases "sleep_reply E (n_sleep w)")
    case (Some e)
    then have "fst (poll_while_running E (Suc n) url hdrs r0 s0 w) = Raise e"
      using s0 by (simp add: poll_Suc_Running)
    with Some show ?thesis by (intro disjI2 exI[of _ "n_sleep w"] exI[of _ e]) simp
  next
    case None
    from Suc.prems have "polled_status E w s0 1 = Inr (JStr ''Running'')" by (rule spec)
    then have "fetched_status E (n_http w) = Inr (JStr ''Running'')"
      by (simp add: polled_status_def)
    then obtain r1 where r1: "http_reply E (n_http w) = Inr r1" "resp_status r1 = Inr (JStr ''Running'')"
      by (auto simp: fetched_status_def split: sum.splits)
    have "\<forall>k. polled_status E (w @ [Sleep 1, Http GET url hdrs NoData]) (JStr ''Running'') k =
             Inr (JStr ''Running'')"
      using Suc.prems polled_status_step[OF r1, of url hdrs _ s0] by simp
    from Suc.IH[OF this, of r1] show ?thesis
      using s0 r1 None by (simp add: poll_Suc_Running)
  qed
qed

text \<open>
  Claim C2 says that the loops end after finitely many iterations when some poll gives a
  status different from \<open>"Running"\<close>, and that they never end when every poll gives
  \<open>"Running"\<close>. The second half fails where a sleep is interrupted: \<open>time.sleep\<close> raises
  and the exception leaves the loop. In the run below every poll gives \<open>"Running"\<close> and
  Ctrl-C arrives during the third sleep of the loop, which ends there with
  \<open>KeyboardInterrupt\<close>.
\<close>

theorem interrupted_sleep_ends_poll:
  "polled_status interrupted_poll_env [] (JStr ''Running'') 0 = Inr (JStr ''Running'') \<and>
   polled_status interrupted_poll_env [] (JStr ''Running'') 1 = Inr (JStr ''Running'') \<and>
   polled_status interrupted_poll_env [] (JStr ''Running'') 2 = Inr (JStr ''Running'') \<and>
   polled_status interrupted_poll_env [] (JStr ''Running'') 3 = Inr (JStr ''Running'') \<and>
   poll_while_running interrupted_poll_env (Suc (Suc (Suc (Suc (Suc 0))))) ''https://svc/op'' []
      (example_response 200 (status_body ''Running'')) (JStr ''Running'') [] =
     (Raise KeyboardInterrupt,
      [Sleep 1, Http GET ''https://svc/op'' [] NoData,
       Sleep 1, Http GET ''https://svc/op'' [] NoData,
       Sleep 1])"
  by (simp add: interrupted_poll_env_def polled_status_def fetched_status_def run_simps)

text \<open>
  Claim C2, as the code has it: if some poll of the loop of \<open>create_analyzer\<close> or
  \<open>analyze_card\<close> gives something else than the status \<open>"Running"\<close>, the loop ends after
  finitely many iterations: from some amount of fuel on, the run is not cut off. If every
  poll gives \<open>"Running"\<close>, the loop never leaves on its own, there being no iteration
  limit and no timeout: with no sleep interrupted it is cut off with every amount of
  fuel, and in general it is either cut off or ended by the exception of an interrupted
  sleep.
\<close>

theorem poll_terminates_iff_not_running:
  "((\<exists>k. polled_status E w s0 k \<noteq> Inr (JStr ''Running'')) \<longrightarrow>
      (\<exists>n. \<forall>m\<ge>n. fst (poll_while_running E m url hdrs r0 s0 w) \<noteq> OutOfFuel)) \<and>
   ((\<forall>k. polled_status E w s0 k = Inr (JStr ''Running'')) \<and> (\<forall>k. sleep_reply E k = None) \<longrightarrow>
      (\<forall>n. fst (poll_while_running E n url hdrs r0 s0 w) = OutOfFuel)) \<and>
   ((\<forall>k. polled_status E w s0 k = Inr (JStr ''Running'')) \<longrightarrow>
      (\<forall>n. fst (poll_while_running E n url hdrs r0 s0 w) = OutOfFuel \<or>
           (\<exists>k e. sleep_reply E k = Some e \<and>
                  fst (poll_while_running E n url hdrs r0 s0 w) = Raise e)))"
proof (intro conjI impI)
  assume "\<exists>k. polled_status E w s0 k \<noteq> Inr (JStr ''Running'')"
  then obtain k where "polled_status E w s0 k \<noteq> Inr (JStr ''Running'')" ..
  then have "\<forall>m\<ge>k. fst (poll_while_running E m url hdrs r0 s0 w) \<noteq> OutOfFuel"
    using poll_terminates_aux by blast
  then show "\<exists>n. \<forall>m\<ge>n. fst (poll_while_running E m url hdrs r0 s0 w) \<noteq> OutOfFuel" ..
next
  assume "(\<forall>k. polled_status E w s0 k = Inr (JStr ''Running'')) \<and> (\<forall>k. sleep_reply E k = None)"
  then show "\<forall>n. fst (poll_while_running E n url hdrs r0 s0 w) = OutOfFuel"
    using poll_diverges_aux by blast
next
  assume "\<forall>k. polled_status E w s0 k = Inr (JStr ''Running'')"
  then show "\<forall>n. fst (poll_while_running E n url hdrs r0 s0 w) = OutOfFuel \<or>
           (\<exists>k e. sleep_reply E k = Some e \<and>
                  fst (poll_while_running E n url hdrs r0 s0 w) = Raise e)"
    using poll_running_aux by blast
qed

text \<open>An endpoint that answers \<open>"Succeeded"\<close> from the third request on, one that answers
  \<open>"Running"\<close> for ever, and one that answers \<open>"Running"\<close> for ever while the third
  sleep is interrupted.\<close>

theorem poll_terminates_iff_not_running_witness:
  "(\<exists>n. \<forall>m\<ge>n. fst (poll_while_running two_polls_env m ''https://svc/op'' []
       (example_response 200 (status_body ''Running'')) (JStr ''Running'') []) \<noteq> OutOfFuel) \<and>
   (\<forall>n. fst (poll_while_running running_env n ''https://svc/op'' []
       (example_response 200 (status_body ''Running'')) (JStr ''Running'') []) = OutOfFuel) \<and>
   (\<forall>n. fst (poll_while_running interrupted_poll_env n ''https://svc/op'' []
         (example_response 200 (status_body ''Running'')) (JStr ''Running'') []) = OutOfFuel \<or>
        (\<exists>k e. sleep_reply interrupted_poll_env k = Some e \<and>
           fst (poll_while_running interrupted_poll_env n ''https://svc/op'' []
             (example_response 200 (status_body ''Running'')) (JStr ''Running'') []) = Raise e))"
proof -
  have a: "\<exists>k. polled_status two_polls_env [] (JStr ''Running'') k \<noteq> Inr (JStr ''Running'')"
    by (intro exI[of _ 3]) (simp add: polled_status_def fetched_status_def two_polls_env_def)
  have b: "(\<forall>k. polled_status running_env [] (JStr ''Running'') k = Inr (JStr ''Running'')) \<and>
           (\<forall>k. sleep_reply running_env k = None)"
    by (simp add: polled_status_def fetched_status_def running_env_def)
  have c: "\<forall>k. polled_status interrupted_poll_env [] (JStr ''Running'') k = Inr (JStr ''Running'')"
    by (simp add: polled_status_def fetched_status_def interrupted_poll_env_def)
  note t1 = poll_terminates_iff_not_running[of two_polls_env "[]" "JStr ''Running''" "''https://svc/op''" "[]"
            "example_response 200 (status_body ''Running'')"]
  note t2 = poll_terminates_iff_not_running[of running_env "[]" "JStr ''Running''" "''https://svc/op''" "[]"
            "example_response 200 (status_body ''Running'')"]
  note t3 = poll_terminates_iff_not_running[of interrupted_poll_env "[]" "JStr ''Running''" "''https://svc/op''" "[]"
            "example_response 200 (status_body ''Running'')"]
  have p1: "\<exists>n. \<forall>m\<ge>n. fst (poll_while_running two_polls_env m ''https://svc/op'' []
       (example_response 200 (status_body ''Running'')) (JStr ''Running'') []) \<noteq> OutOfFuel"
    by (rule mp[OF conjunct1[OF t1] a])
  have p2: "\<forall>n. fst (poll_while_running running_env n ''https://svc/op'' []
       (example_response 200 (status_body ''Running'')) (JStr ''Running'') []) = OutOfFuel"
    by (rule mp[OF conjunct1[OF conjunct2[OF t2]] b])
  have p3: "\<forall>n. fst (poll_while_running interrupted_poll_env n ''https://svc/op'' []
         (example_response 200 (status_body ''Running'')) (JStr ''Running'') []) = OutOfFuel \<or>
        (\<exists>k e. sleep_reply interrupted_poll_env k = Some e \<and>
           fst (poll_while_running interrupted_poll_env n ''https://svc/op'' []
             (example_response 200 (status_body ''Running'')) (JStr ''Running'') []) = Raise e)"
    by (rule mp[OF conjunct2[OF conjunct2[OF t3]] c])
  from p1 p2 p3 show ?thesis by (intro conjI)
qed

section \<open>The polling loop: the interval\<close>

text \<open>
  Claim C3: in every iteration of the polling loop of \<open>create_analyzer\<close> and
  \<open>analyze_card\<close> the delay before the next GET is one second. Whatever the environment
  answers and however long the loop runs, the events it adds are \<open>Sleep 1\<close> and a GET in
  turn, ending after a GET or, when a sleep is interrupted, after that sleep: no GET
  without its sleep and no sleep of another length.
\<close>

theorem poll_sleeps_one_second:
  "\<exists>k tl. snd (poll_while_running E n url hdrs r0 s0 w) =
       w @ concat (replicate k [Sleep 1, Http GET url hdrs NoData]) @ tl \<and>
     (tl = [] \<or> tl = [Sleep 1])"
proof (induction n arbitrary: r0 s0 w)
  case 0
  show ?case
    by (cases "s0 = JStr ''Running''")
       (auto simp: poll_0_Running poll_not_Running intro!: exI[of _ 0] exI[of _ "[]"])
next
  case (Suc n)
  let ?w1 = "w @ [Sleep 1, Http GET url hdrs NoData]"
  show ?case
  proof (cases "s0 = JStr ''Running''")
    case False
    then show ?thesis by (intro exI[of _ 0] exI[of _ "[]"]) (simp add: poll_not_Running)
  next
    case True
    show ?thesis
    proof (cases "sleep_reply E (n_sleep w)")
      case (Some e)
      then show ?thesis using True
        by (intro exI[of _ 0] exI[of _ "[Sleep 1]"]) (simp add: poll_Suc_Running)
    next
      case None
      have one: "\<exists>k tl. ?w1 =
          w @ concat (replicate k [Sleep 1, Http GET url hdrs NoData]) @ tl \<and> (tl = [] \<or> tl = [Sleep 1])"
        by (intro exI[of _ 1] exI[of _ "[]"]) simp
      show ?thesis
      proof (cases "http_reply E (n_http w)")
        case (Inl e)
        then show ?thesis using True None one by (simp add: poll_Suc_Running)
      next
        case (Inr r1)
        show ?thesis
        proof (cases "resp_status r1")
          case (Inl e)
          then show ?thesis using True None Inr one by (simp add: poll_Suc_Running)
        next
          case (Inr s1)
          from Suc.IH[of r1 s1 ?w1] obtain k tl where
            "snd (poll_while_running E n url hdrs r1 s1 ?w1) =
               ?w1 @ concat (replicate k [Sleep 1, Http GET url hdrs NoData]) @ tl"
            "tl = [] \<or> tl = [Sleep 1]" by blast
          then show ?thesis using True None \<open>http_reply E (n_http w) = Inr r1\<close> Inr
            by (intro exI[of _ "Suc k"] exI[of _ tl]) (simp add: poll_Suc_Running)
        qed
      qed
    qed
  qed
qed

section \<open>The top-level handler\<close>

text \<open>
  Claim C4 says that every exception raised in the body of \<open>main\<close> is caught and printed
  and that none leaves \<open>main\<close>. The handler is \<open>except Exception\<close>, which does not catch
  \<open>KeyboardInterrupt\<close>. In the run below Ctrl-C arrives while \<open>create_analyzer\<close> sleeps
  after its DELETE: nothing is printed and the exception leaves \<open>main\<close>.
\<close>

theorem keyboard_interrupt_leaves_main:
  "create_analyzer_main interrupted_env 3 [] =
     (Raise KeyboardInterrupt,
      [System ''clear'', ReadFile ''biz-card.json'', LoadDotenv,
       Print (PyStr ''Creating biz''),
       Print (PyStr (''DEBUG: URL = '' @ analyzer_url (Some ''https://svc'') (Some ''biz''))),
       Http DELETE (analyzer_url (Some ''https://svc'') (Some ''biz''))
         (request_headers (Some ''k'') ''application/json'') NoData,
       Print (PyInt 204),
       Sleep 1])"
  by (simp add: create_analyzer_main_def create_analyzer_try_body_def create_analyzer_def
        try_except_print_def interrupted_env_def run_simps)

text \<open>
  Claim C4, as the code has it: in each of the four scripts, an exception of a class
  derived from \<open>Exception\<close> that the body of the \<open>try\<close> raises is caught and printed, and
  \<open>main\<close> completes; nothing else is done with it, no retry, no cleanup, no re-raise
  (\<open>document-analysis.py\<close> goes on to its closing \<open>print\<close>, which follows the handler).
  An exception that is not derived from \<open>Exception\<close> leaves \<open>main\<close>.
\<close>

theorem main_catches_Exception_only:
  "(create_analyzer_try_body E n (snd (os_system_clear E w)) = (Raise e, w') \<longrightarrow>
      create_analyzer_main E n w =
        (if is_Exception e then (Return (), w' @ [Print (PyExn e)]) else (Raise e, w'))) \<and>
   (read_card_try_body E n (snd (os_system_clear E w)) = (Raise e, w') \<longrightarrow>
      read_card_main E n w =
        (if is_Exception e then (Return (), w' @ [Print (PyExn e)]) else (Raise e, w'))) \<and>
   (search_app_try_body E n (snd (os_system_clear E w)) = (Raise e, w') \<longrightarrow>
      search_app_main E n w =
        (if is_Exception e then (Return (), w' @ [Print (PyExn e)]) else (Raise e, w'))) \<and>
   (document_analysis_try_body E (snd (os_system_clear E w)) = (Raise e, w') \<longrightarrow>
      document_analysis_main E w =
        (if is_Exception e
         then (Return (), w' @ [Print (PyExn e), Print (PyStr (nl @ ''Analysis complete.'' @ nl))])
         else (Raise e, w')))"
  by (simp add: create_analyzer_main_def read_card_main_def search_app_main_def
        document_analysis_main_def os_system_clear_def try_except_print_def and_then_def)

text \<open>The four scripts where the input file cannot be opened or the SDK client cannot
  be constructed.\<close>

theorem main_catches_Exception_only_witness:
  "create_analyzer_main no_files_env 3 [] =
     (Return (), [System ''clear'', ReadFile ''biz-card.json'', Print (PyExn OSError)]) \<and>
   read_card_main no_files_env 3 [] =
     (Return (), [System ''clear'', LoadDotenv, Print (PyStr ''Analyzing biz-card-1.png''),
                  ReadFile ''biz-card-1.png'', Print (PyExn OSError)]) \<and>
   search_app_main no_client_env 3 [] =
     (Return (), [System ''clear'', LoadDotenv,
                  NewClient [None, None, None], Print (PyExn AzureError)]) \<and>
   document_analysis_main no_client_env [] =
     (Return (), [System ''clear'', LoadDotenv,
                  Print (PyStr (nl @ ''Connecting to Forms Recognizer at: https://svc'')),
                  Print (PyStr ''Analyzing invoice at: https://github.com/MicrosoftLearning/mslearn-ai-information-extraction/blob/main/Labfiles/prebuilt-doc-intelligence/sample-invoice/sample-invoice.pdf?raw=true''),
                  NewClient [Some ''https://svc'', Some ''k''],
                  Print (PyExn AzureError),
                  Print (PyStr (nl @ ''Analysis complete.'' @ nl))])"
proof -
  have a: "create_analyzer_try_body no_files_env 3 (snd (os_system_clear no_files_env [])) =
      (Raise OSError, [System ''clear'', ReadFile ''biz-card.json''])"
    by (simp add: create_analyzer_try_body_def no_files_env_def run_simps)
  have b: "read_card_try_body no_files_env 3 (snd (os_system_clear no_files_env [])) =
      (Raise OSError, [System ''clear'', LoadDotenv, Print (PyStr ''Analyzing biz-card-1.png''),
                  ReadFile ''biz-card-1.png''])"
    by (simp add: read_card_try_body_def analyze_card_def no_files_env_def run_simps)
  have c: "search_app_try_body no_client_env 3 (snd (os_system_clear no_client_env [])) =
      (Raise AzureError, [System ''clear'', LoadDotenv, NewClient [None, None, None]])"
    by (simp add: search_app_try_body_def new_sdk_client_def no_client_env_def run_simps)
  have d: "document_analysis_try_body no_client_env (snd (os_system_clear no_client_env [])) =
      (Raise AzureError, [System ''clear'', LoadDotenv,
                  Print (PyStr (nl @ ''Connecting to Forms Recognizer at: https://svc'')),
                  Print (PyStr ''Analyzing invoice at: https://github.com/MicrosoftLearning/mslearn-ai-information-extraction/blob/main/Labfiles/prebuilt-doc-intelligence/sample-invoice/sample-invoice.pdf?raw=true''),
                  NewClient [Some ''https://svc'', Some ''k'']])"
    by (simp add: document_analysis_try_body_def new_sdk_client_def no_client_env_def run_simps)
  show ?thesis
    using main_catches_Exception_only[of no_files_env 3 "[]" OSError
            "[System ''clear'', ReadFile ''biz-card.json'']"]
          main_catches_Exception_only[of no_files_env 3 "[]" OSError
            "[System ''clear'', LoadDotenv, Print (PyStr ''Analyzing biz-card-1.png''),
              ReadFile ''biz-card-1.png'']"]
          main_catches_Exception_only[of no_client_env 3 "[]" AzureError
            "[System ''clear'', LoadDotenv, NewClient [None, None, None]]"]
          main_catches_Exception_only[of no_client_env 3 "[]" AzureError
            "[System ''clear'', LoadDotenv,
                  Print (PyStr (nl @ ''Connecting to Forms Recognizer at: https://svc'')),
                  Print (PyStr ''Analyzing invoice at: https://github.com/MicrosoftLearning/mslearn-ai-information-extraction/blob/main/Labfiles/prebuilt-doc-intelligence/sample-invoice/sample-invoice.pdf?raw=true''),
                  NewClient [Some ''https://svc'', Some ''k'']]"]
          a b c d
    by simp
qed

section \<open>A rejected submission\<close>

text \<open>
  Claim C5: when the PUT of \<open>create_analyzer\<close> or the POST of \<open>analyze_card\<close> is
  answered with a status code of 400 or more, the function prints the status code, an
  error message and the response text and returns; the trace ends there, so no further
  HTTP request is made and nothing is retried.
\<close>

theorem submission_error_returns:
  "(http_reply E (n_http w) = Inr r0 \<and> sleep_reply E (n_sleep w) = None \<and>
    http_reply E (Suc (n_http w)) = Inr r \<and> status_code r \<ge> 400 \<longrightarrow>
      create_analyzer E n schema analyzer endpoint key w =
        (Return (),
         w @ [Print (PyStr (''Creating '' @ fstr_opt analyzer)),
              Print (PyStr (''DEBUG: URL = '' @ analyzer_url endpoint analyzer)),
              Http DELETE (analyzer_url endpoint analyzer) (request_headers key ''application/json'') NoData,
              Print (PyInt (status_code r0)),
              Sleep 1,
              Http PUT (analyzer_url endpoint analyzer) (request_headers key ''application/json'')
                (TextData schema),
              Print (PyInt (status_code r)),
              Print (PyStr ''ERROR: PUT request failed''),
              Print (PyStr (''Response: '' @ resp_text r))])) \<and>
   (read_bytes E image_file = Inr image_data \<and> http_reply E (n_http w) = Inr r \<and>
    status_code r \<ge> 400 \<longrightarrow>
      analyze_card E n image_file analyzer endpoint key w =
        (Return (),
         w @ [Print (PyStr (''Analyzing '' @ image_file)),
              ReadFile image_file,
              Print (PyStr ''Submitting request...''),
              Http POST (analyze_url endpoint analyzer) (request_headers key ''application/octet-stream'')
                (BytesData image_data),
              Print (PyInt (status_code r)),
              Print (PyStr ''ERROR: Failed to submit image for analysis''),
              Print (PyStr (''Response: '' @ resp_text r))]))"
  by (simp add: create_analyzer_def analyze_card_def Let_def and_then_requests and_then_time_sleep
        read_binary_file_def and_then_assoc)

text \<open>Both functions where every request is answered with 401.\<close>

theorem submission_error_returns_witness:
  "create_analyzer unauthorized_env 3 ''{}'' (Some ''biz'') (Some ''https://svc'') (Some ''k'') [] =
     (Return (),
      [Print (PyStr ''Creating biz''),
       Print (PyStr (''DEBUG: URL = '' @ analyzer_url (Some ''https://svc'') (Some ''biz''))),
       Http DELETE (analyzer_url (Some ''https://svc'') (Some ''biz''))
         (request_headers (Some ''k'') ''application/json'') NoData,
       Print (PyInt 401),
       Sleep 1,
       Http PUT (analyzer_url (Some ''https://svc'') (Some ''biz''))
         (request_headers (Some ''k'') ''application/json'') (TextData ''{}''),
       Print (PyInt 401),
       Print (PyStr ''ERROR: PUT request failed''),
       Print (PyStr ''Response: text'')]) \<and>
   analyze_card unauthorized_env 3 ''biz-card-1.png'' (Some ''biz'') (Some ''https://svc'') (Some ''k'') [] =
     (Return (),
      [Print (PyStr ''Analyzing biz-card-1.png''),
       ReadFile ''biz-card-1.png'',
       Print (PyStr ''Submitting request...''),
       Http POST (analyze_url (Some ''https://svc'') (Some ''biz''))
         (request_headers (Some ''k'') ''application/octet-stream'') (BytesData ''png''),
       Print (PyInt 401),
       Print (PyStr ''ERROR: Failed to submit image for analysis''),
       Print (PyStr ''Response: text'')])"
  using submission_error_returns[of unauthorized_env "[]" "example_response 401 JNull"
          "example_response 401 JNull" 3 "''{}''" "Some ''biz''" "Some ''https://svc''" "Some ''k''"
          "''biz-card-1.png''" "''png''"]
  by (simp add: unauthorized_env_def)

section \<open>The printed fields\<close>

lemma value_key_cases:
  "value_key t = Some k \<Longrightarrow>
     (t = JStr ''string'' \<and> k = ''valueString'') \<or> (t = JStr ''number'' \<and> k = ''valueNumber'') \<or>
     (t = JStr ''integer'' \<and> k = ''valueInteger'') \<or> (t = JStr ''date'' \<and> k = ''valueDate'') \<or>
     (t = JStr ''time'' \<and> k = ''valueTime'') \<or> (t = JStr ''array'' \<and> k = ''valueArray'')"
  by (auto simp: value_key_def split: if_splits)

lemma value_key_None:
  "value_key t = None \<Longrightarrow>
     t \<noteq> JStr ''string'' \<and> t \<noteq> JStr ''number'' \<and> t \<noteq> JStr ''integer'' \<and>
     t \<noteq> JStr ''date'' \<and> t \<noteq> JStr ''time'' \<and> t \<noteq> JStr ''array''"
  by (auto simp: value_key_def split: if_splits)

lemma print_field_ok:
  assumes "field_ok (snd item)"
  shows "print_field E item w = (Return (), w @ map (\<lambda>l. Print (PyStr l)) (field_line E item))"
proof -
  from assms obtain t where t: "py_getitem (snd item) ''type'' = Inr t"
    by (auto simp: field_ok_def split: sum.splits)
  show ?thesis
  proof (cases "value_key t")
    case None
    from value_key_None[OF None] t None show ?thesis
      by (simp add: print_field_def field_line_def Let_def)
  next
    case (Some k)
    with assms t obtain v where v: "py_getitem (snd item) k = Inr v"
      by (auto simp: field_ok_def split: sum.splits)
    from value_key_cases[OF Some] t Some v show ?thesis
      by (elim disjE conjE) (simp_all add: print_field_def field_line_def Let_def)
  qed
qed

lemma for_each_lines:
  "(\<And>x w. x \<in> set xs \<Longrightarrow> body x w = (Return (), w @ map (\<lambda>l. Print (PyStr l)) (f x))) \<Longrightarrow>
   for_each body xs w = (Return (), w @ map (\<lambda>l. Print (PyStr l)) (concat (map f xs)))"
proof (induction xs arbitrary: w)
  case Nil
  show ?case by simp
next
  case (Cons x xs)
  have "body x w = (Return (), w @ map (\<lambda>l. Print (PyStr l)) (f x))"
    by (rule Cons.prems) simp
  moreover have "for_each body xs (w @ map (\<lambda>l. Print (PyStr l)) (f x)) =
      (Return (), (w @ map (\<lambda>l. Print (PyStr l)) (f x)) @ map (\<lambda>l. Print (PyStr l)) (concat (map f xs)))"
    by (rule Cons.IH) (simp add: Cons.prems)
  ultimately show ?case by (simp add: and_then_def)
qed

lemma print_content_ok:
  assumes "content_ok content"
  shows "print_content E content w =
           (Return (), w @ map (\<lambda>l. Print (PyStr l)) (content_lines E content))"
proof -
  from assms obtain kvs where c: "content = JObj kvs"
    by (cases content) (simp_all add: content_ok_def)
  show ?thesis
  proof (cases "map_of kvs ''fields''")
    case None
    then have "''fields'' \<notin> fst ` set kvs" by (simp add: map_of_eq_None_iff)
    with c None show ?thesis
      by (simp add: print_content_def content_lines_def content_fields_def)
  next
    case (Some fields)
    then have mem: "''fields'' \<in> fst ` set kvs" using map_of_SomeD by force
    from assms c Some obtain fs where fs: "fields = JObj fs" "list_all (\<lambda>item. field_ok (snd item)) fs"
      by (cases fields) (simp_all add: content_ok_def)
    have "for_each (print_field E) fs w =
        (Return (), w @ map (\<lambda>l. Print (PyStr l)) (concat (map (field_line E) fs)))"
      using fs(2) by (intro for_each_lines print_field_ok) (simp add: list_all_iff)
    with c Some mem fs(1) show ?thesis
      by (simp add: print_content_def content_lines_def content_fields_def)
  qed
qed

text \<open>
  Where the result has the shape the loops expect (\<open>contents\<close> a list of dicts, each
  \<open>fields\<close> a dict of fields that have a \<open>type\<close> and, for the six types, the value key of
  that type) and \<open>results.json\<close> can be written and closed, the lines
  \<open><field_name>: <value>\<close> are printed in order, one for every field of one of the six
  types, and the function returns.
\<close>

lemma fields_printed_when_complete:
  assumes "resp_json result_response = Inr body"
    and "write_json E ''results.json'' body = None"
    and "close_reply E ''results.json'' = None"
    and "py_getitem body ''result'' = Inr result"
    and "py_getitem result ''contents'' = Inr (JArr contents)"
    and "list_all content_ok contents"
  shows "analyze_card_results E result_response (JStr ''Succeeded'') w =
    (Return (),
     w @ [Print (PyStr (''Analysis succeeded:'' @ nl)),
          WriteJson ''results.json'' body,
          Print (PyStr (''Response saved in results.json'' @ nl))]
       @ map (\<lambda>l. Print (PyStr l)) (concat (map (content_lines E) contents)))"
proof -
  have "for_each (print_content E) contents
          (w @ [Print (PyStr (''Analysis succeeded:'' @ nl)), WriteJson ''results.json'' body,
                Print (PyStr (''Response saved in results.json'' @ nl))]) =
        (Return (),
         (w @ [Print (PyStr (''Analysis succeeded:'' @ nl)), WriteJson ''results.json'' body,
               Print (PyStr (''Response saved in results.json'' @ nl))])
           @ map (\<lambda>l. Print (PyStr l)) (concat (map (content_lines E) contents)))"
    using assms(6) by (intro for_each_lines print_content_ok) (simp add: list_all_iff)
  with assms(1-5) show ?thesis
    by (simp add: analyze_card_results_def Let_def dump_json_file_def close_file_def and_then_assoc)
qed

text \<open>A result with a \<open>string\<close> field, an \<open>integer\<close> field and a field of type
  \<open>object\<close>.\<close>

lemma fields_printed_example:
  "analyze_card_results example_env (example_response 200 complete_card) (JStr ''Succeeded'') [] =
    (Return (),
     [Print (PyStr (''Analysis succeeded:'' @ nl)),
      WriteJson ''results.json'' complete_card,
      Print (PyStr (''Response saved in results.json'' @ nl)),
      Print (PyStr ''Name: Ada''),
      Print (PyStr ''Floor: 3'')])"
proof -
  let ?contents = "[JObj [(''fields'', JObj
              [(''Name'', JObj [(''type'', JStr ''string''), (''valueString'', JStr ''Ada'')]),
               (''Floor'', JObj [(''type'', JStr ''integer''), (''valueInteger'', JInt 3)]),
               (''Logo'', JObj [(''type'', JStr ''object'')])])]]"
  have a: "py_getitem complete_card ''result'' = Inr (JObj [(''contents'', JArr ?contents)])"
    by (simp add: complete_card_def)
  have b: "py_getitem (JObj [(''contents'', JArr ?contents)]) ''contents'' = Inr (JArr ?contents)"
    by simp
  have c: "list_all content_ok ?contents"
    by (simp add: content_ok_def field_ok_def value_key_def)
  have d: "concat (map (content_lines example_env) ?contents) = [''Name: Ada'', ''Floor: 3'']"
    by (simp add: content_lines_def content_fields_def field_line_def value_key_def py_str_def str_int_def)
  from fields_printed_when_complete[of "example_response 200 complete_card" complete_card example_env,
         OF _ _ _ a b c, of "[]"] d
  show ?thesis by simp
qed

text \<open>
  Claim C6: for every succeeded analysis result, \<open>analyze_card\<close> goes over every field of
  every content item that has a \<open>fields\<close> key and prints one line
  \<open><field_name>: <value>\<close> for each field whose type is one of \<open>string\<close>, \<open>number\<close>,
  \<open>integer\<close>, \<open>date\<close>, \<open>time\<close> and \<open>array\<close>, reading the value under the key of that
  type. The loop is written to do so ("This loop extracts and displays all recognized
  information from the card"), and it does not: the value is read with
  \<open>field_data['valueString']\<close> and its like, and a field that has its type and no value
  raises \<open>KeyError\<close>, which ends both loops. In the succeeded result below, \<open>Company\<close> has
  type \<open>string\<close> and no \<open>valueString\<close>, and the complete field \<open>Name\<close> follows it: the
  run ends with \<open>KeyError('valueString')\<close> after the message about the saved response, so
  no line is printed for \<open>Name\<close>, a field of type \<open>string\<close> with its \<open>valueString\<close>.
\<close>

theorem missing_value_key_stops_printing:
  "analyze_card_results example_env (example_response 200 partial_card) (JStr ''Succeeded'') [] =
    (Raise (KeyError ''valueString''),
     [Print (PyStr (''Analysis succeeded:'' @ nl)),
      WriteJson ''results.json'' partial_card,
      Print (PyStr (''Response saved in results.json'' @ nl))])"
  by (simp add: analyze_card_results_def print_content_def print_field_def partial_card_def
        dump_json_file_def close_file_def and_then_assoc Let_def)

section \<open>The results file\<close>

lemma starts_with_analyze_card_results:
  assumes "resp_json r = Inr body"
  shows "starts_with (\<lambda>ev. \<not> is_write ev) (analyze_card_results E r (JStr ''Succeeded''))
           [Print (PyStr (''Analysis succeeded:'' @ nl)), WriteJson ''results.json'' body]"
proof -
  have tail: "emits (\<lambda>ev. \<not> is_write ev)
     (and_then (may_raise (write_json E ''results.json'' body)) (\<lambda>_.
      and_then (print (PyStr (''Response saved in '' @ ''results.json'' @ nl))) (\<lambda>_.
      and_then (may_raise (close_reply E ''results.json'')) (\<lambda>_.
      and_then (eval (py_getitem body ''result'')) (\<lambda>result.
      and_then (eval (py_getitem result ''contents'')) (\<lambda>contents.
      and_then (eval (py_iter contents)) (\<lambda>content_list.
      for_each (print_content E) content_list)))))))"
    by (intro emits_intros emits_print_content | simp)+
  have "analyze_card_results E r (JStr ''Succeeded'') =
     and_then (print (PyStr (''Analysis succeeded:'' @ nl))) (\<lambda>_.
     and_then (emit (WriteJson ''results.json'' body)) (\<lambda>_.
     and_then (may_raise (write_json E ''results.json'' body)) (\<lambda>_.
      and_then (print (PyStr (''Response saved in '' @ ''results.json'' @ nl))) (\<lambda>_.
      and_then (may_raise (close_reply E ''results.json'')) (\<lambda>_.
      and_then (eval (py_getitem body ''result'')) (\<lambda>result.
      and_then (eval (py_getitem result ''contents'')) (\<lambda>contents.
      and_then (eval (py_iter contents)) (\<lambda>content_list.
      for_each (print_content E) content_list))))))))"
    by (simp only: analyze_card_results_def Let_def dump_json_file_def close_file_def and_then_assoc assms
          eval_Inr and_then_ret simp_thms if_True)
  then show ?thesis
    by (simp only:) (intro starts_with_print starts_with_emit starts_with_nil tail)
qed

text \<open>
  Claim C7, on lines 138 to 189, which receive the response and the status that the loop
  of \<open>analyze_card\<close> leaves: when the status is \<open>"Succeeded"\<close>, the first thing after the
  heading is the writing of the whole JSON body of the response to \<open>results.json\<close>, so
  before any field is printed, and nothing is written after it; when the status is
  anything else, nothing is written and the status and the body are printed.
\<close>

theorem results_written_before_fields:
  "resp_json result_response = Inr body \<Longrightarrow>
   (status = JStr ''Succeeded'' \<longrightarrow>
      (\<exists>rest. snd (analyze_card_results E result_response status w) =
          w @ [Print (PyStr (''Analysis succeeded:'' @ nl)), WriteJson ''results.json'' body] @ rest \<and>
        filter is_write rest = [])) \<and>
   (status \<noteq> JStr ''Succeeded'' \<longrightarrow>
      analyze_card_results E result_response status w =
        (Return (),
         w @ [Print (PyStr (''Analysis failed with status: '' @ py_str E status @ nl)),
              Print (PyStr ''Error details:''),
              Print (PyJson body)]))"
proof (intro conjI impI)
  assume body: "resp_json result_response = Inr body" and "status = JStr ''Succeeded''"
  with starts_with_analyze_card_results[OF body, of E]
  obtain rest where "snd (analyze_card_results E result_response status w) =
       w @ [Print (PyStr (''Analysis succeeded:'' @ nl)), WriteJson ''results.json'' body] @ rest"
     "\<forall>ev\<in>set rest. \<not> is_write ev"
    unfolding starts_with_def by blast
  then show "\<exists>rest. snd (analyze_card_results E result_response status w) =
          w @ [Print (PyStr (''Analysis succeeded:'' @ nl)), WriteJson ''results.json'' body] @ rest \<and>
        filter is_write rest = []"
    by (intro exI[of _ rest]) (simp add: filter_empty_conv)
next
  assume "resp_json result_response = Inr body" and "status \<noteq> JStr ''Succeeded''"
  then show "analyze_card_results E result_response status w =
        (Return (),
         w @ [Print (PyStr (''Analysis failed with status: '' @ py_str E status @ nl)),
              Print (PyStr ''Error details:''),
              Print (PyJson body)])"
    by (simp add: analyze_card_results_def)
qed

text \<open>A response with status \<open>"Succeeded"\<close> and one with status \<open>"Failed"\<close>.\<close>

theorem results_written_before_fields_witness:
  "(\<exists>rest. snd (analyze_card_results example_env (example_response 200 complete_card)
                  (JStr ''Succeeded'') []) =
       [Print (PyStr (''Analysis succeeded:'' @ nl)), WriteJson ''results.json'' complete_card] @ rest \<and>
     filter is_write rest = []) \<and>
   analyze_card_results example_env (example_response 200 (status_body ''Failed'')) (JStr ''Failed'') [] =
     (Return (),
      [Print (PyStr (''Analysis failed with status: '' @ py_str example_env (JStr ''Failed'') @ nl)),
       Print (PyStr ''Error details:''),
       Print (PyJson (status_body ''Failed''))])"
  using results_written_before_fields[of "example_response 200 complete_card" complete_card
          "JStr ''Succeeded''" example_env "[]"]
        results_written_before_fields[of "example_response 200 (status_body ''Failed'')"
          "status_body ''Failed''" "JStr ''Failed''" example_env "[]"]
  by simp

section \<open>DELETE before PUT\<close>

text \<open>
  Claim C8 says that \<open>create_analyzer\<close> sends a DELETE to the URL of the analyzer before
  the PUT, on every call, so that an analyzer of the same name is deleted before the
  creation. The DELETE is sent, and its answer is printed and not looked at. In the run
  below the service refuses the DELETE with code 500 and accepts everything else: the PUT
  is sent all the same and the function reports that the analyzer was created, while
  nothing was deleted.
\<close>

theorem refused_delete_still_creates:
  "create_analyzer refused_delete_env 5 ''{}'' (Some ''biz'') (Some ''https://svc'') (Some ''k'') [] =
     (Return (),
      [Print (PyStr ''Creating biz''),
       Print (PyStr (''DEBUG: URL = '' @ analyzer_url (Some ''https://svc'') (Some ''biz''))),
       Http DELETE (analyzer_url (Some ''https://svc'') (Some ''biz''))
         (request_headers (Some ''k'') ''application/json'') NoData,
       Print (PyInt 500), Sleep 1,
       Http PUT (analyzer_url (Some ''https://svc'') (Some ''biz''))
         (request_headers (Some ''k'') ''application/json'') (TextData ''{}''),
       Print (PyInt 200), Sleep 1,
       Http GET ''https://svc/op'' (request_headers (Some ''k'') ''application/json'') NoData,
       Print (PyJson (JStr ''Succeeded'')),
       Print (PyStr (''Analyzer '' @ sq @ ''biz'' @ sq @ '' created successfully.''))])"
  by (simp add: create_analyzer_def create_analyzer_await_def refused_delete_env_def run_simps)

text \<open>
  Claim C8, as the code has it: on every call, whatever the environment answers, the
  first HTTP request of \<open>create_analyzer\<close> is a DELETE to the URL of the analyzer,
  preceded by two prints only. If the DELETE raises, the exception ends the function
  there. If the DELETE is answered, with whatever status code, the code is printed and
  one second is slept; if that sleep is interrupted the exception ends the function
  there, and otherwise the next event is the PUT of the schema to the same URL. The
  status code of the DELETE is not checked.
\<close>

theorem create_analyzer_deletes_then_puts:
  "(\<exists>rest. snd (create_analyzer E n schema analyzer endpoint key w) =
      w @ [Print (PyStr (''Creating '' @ fstr_opt analyzer)),
           Print (PyStr (''DEBUG: URL = '' @ analyzer_url endpoint analyzer)),
           Http DELETE (analyzer_url endpoint analyzer) (request_headers key ''application/json'') NoData]
        @ rest) \<and>
   (http_reply E (n_http w) = Inl e \<longrightarrow>
      create_analyzer E n schema analyzer endpoint key w =
        (Raise e,
         w @ [Print (PyStr (''Creating '' @ fstr_opt analyzer)),
              Print (PyStr (''DEBUG: URL = '' @ analyzer_url endpoint analyzer)),
              Http DELETE (analyzer_url endpoint analyzer) (request_headers key ''application/json'') NoData])) \<and>
   (http_reply E (n_http w) = Inr r0 \<and> sleep_reply E (n_sleep w) = Some e \<longrightarrow>
      create_analyzer E n schema analyzer endpoint key w =
        (Raise e,
         w @ [Print (PyStr (''Creating '' @ fstr_opt analyzer)),
              Print (PyStr (''DEBUG: URL = '' @ analyzer_url endpoint analyzer)),
              Http DELETE (analyzer_url endpoint analyzer) (request_headers key ''application/json'') NoData,
              Print (PyInt (status_code r0)),
              Sleep 1])) \<and>
   (http_reply E (n_http w) = Inr r0 \<and> sleep_reply E (n_sleep w) = None \<longrightarrow>
      (\<exists>rest. snd (create_analyzer E n schema analyzer endpoint key w) =
         w @ [Print (PyStr (''Creating '' @ fstr_opt analyzer)),
              Print (PyStr (''DEBUG: URL = '' @ analyzer_url endpoint analyzer)),
              Http DELETE (analyzer_url endpoint analyzer) (request_headers key ''application/json'') NoData,
              Print (PyInt (status_code r0)),
              Sleep 1,
              Http PUT (analyzer_url endpoint analyzer) (request_headers key ''application/json'')
                (TextData schema)]
           @ rest))"
proof -
  let ?url = "analyzer_url endpoint analyzer"
  let ?hdrs = "request_headers key ''application/json''"
  let ?pre = "[Print (PyStr (''Creating '' @ fstr_opt analyzer)),
               Print (PyStr (''DEBUG: URL = '' @ ?url)), Http DELETE ?url ?hdrs NoData]"
  let ?run = "create_analyzer E n schema analyzer endpoint key w"
  let ?put = "Http PUT ?url ?hdrs (TextData schema)"
  have raised: "?run = (Raise e, w @ ?pre)" if "http_reply E (n_http w) = Inl e" for e
    using that by (simp add: create_analyzer_def Let_def and_then_requests)
  have interrupted: "?run = (Raise e, w @ ?pre @ [Print (PyInt (status_code r0)), Sleep 1])"
    if "http_reply E (n_http w) = Inr r0" "sleep_reply E (n_sleep w) = Some e" for r0 e
    using that by (simp add: create_analyzer_def Let_def and_then_requests and_then_time_sleep)
  have put: "\<exists>rest. snd ?run = w @ ?pre @ [Print (PyInt (status_code r0)), Sleep 1, ?put] @ rest"
    if del: "http_reply E (n_http w) = Inr r0" and sl: "sleep_reply E (n_sleep w) = None" for r0
  proof (cases "http_reply E (Suc (n_http w))")
    case (Inl e')
    with del sl have "snd ?run = w @ ?pre @ [Print (PyInt (status_code r0)), Sleep 1, ?put] @ []"
      by (simp add: create_analyzer_def Let_def and_then_requests and_then_time_sleep)
    then show ?thesis by (rule exI)
  next
    case (Inr r)
    let ?w1 = "w @ ?pre @ [Print (PyInt (status_code r0)), Sleep 1, ?put, Print (PyInt (status_code r))]"
    show ?thesis
    proof (cases "status_code r \<ge> 400")
      case True
      with del sl Inr have "snd ?run = w @ ?pre @ [Print (PyInt (status_code r0)), Sleep 1, ?put] @
          [Print (PyInt (status_code r)), Print (PyStr ''ERROR: PUT request failed''),
           Print (PyStr (''Response: '' @ resp_text r))]"
        by (simp add: create_analyzer_def Let_def and_then_requests and_then_time_sleep)
      then show ?thesis by (rule exI)
    next
      case False
      with del sl Inr have run: "snd ?run = snd (create_analyzer_await E n analyzer ?hdrs r ?w1)"
        by (simp add: create_analyzer_def Let_def and_then_requests and_then_time_sleep)
      from emits_True_extends[OF emits_create_analyzer_await] obtain evs where
        "snd (create_analyzer_await E n analyzer ?hdrs r ?w1) = ?w1 @ evs" by blast
      with run have "snd ?run = w @ ?pre @ [Print (PyInt (status_code r0)), Sleep 1, ?put] @
          (Print (PyInt (status_code r)) # evs)" by simp
      then show ?thesis by (rule exI)
    qed
  qed
  have always: "\<exists>rest. snd ?run = w @ ?pre @ rest"
  proof (cases "http_reply E (n_http w)")
    case (Inl e')
    from raised[OF Inl] have "snd ?run = w @ ?pre @ []" by simp
    then show ?thesis by (rule exI)
  next
    case (Inr r0)
    show ?thesis
    proof (cases "sleep_reply E (n_sleep w)")
      case (Some e')
      from interrupted[OF Inr Some] have "snd ?run = w @ ?pre @ [Print (PyInt (status_code r0)), Sleep 1]"
        by simp
      then show ?thesis by (rule exI)
    next
      case None
      from put[OF Inr None] obtain rest where
        "snd ?run = w @ ?pre @ [Print (PyInt (status_code r0)), Sleep 1, ?put] @ rest" ..
      then have "snd ?run = w @ ?pre @ ([Print (PyInt (status_code r0)), Sleep 1, ?put] @ rest)"
        by simp
      then show ?thesis by (rule exI)
    qed
  qed
  show ?thesis
  proof (intro conjI impI)
    from always show "\<exists>rest. snd ?run = w @ ?pre @ rest" .
  next
    assume "http_reply E (n_http w) = Inl e"
    then show "?run = (Raise e, w @ ?pre)" by (rule raised)
  next
    assume a: "http_reply E (n_http w) = Inr r0 \<and> sleep_reply E (n_sleep w) = Some e"
    from interrupted[OF conjunct1[OF a] conjunct2[OF a]]
    show "?run = (Raise e, w @ [Print (PyStr (''Creating '' @ fstr_opt analyzer)),
              Print (PyStr (''DEBUG: URL = '' @ ?url)), Http DELETE ?url ?hdrs NoData,
              Print (PyInt (status_code r0)), Sleep 1])"
      by simp
  next
    assume a: "http_reply E (n_http w) = Inr r0 \<and> sleep_reply E (n_sleep w) = None"
    from put[OF conjunct1[OF a] conjunct2[OF a]] obtain rest where
      r: "snd ?run = w @ ?pre @ [Print (PyInt (status_code r0)), Sleep 1, ?put] @ rest" ..
    show "\<exists>rest. snd ?run = w @ [Print (PyStr (''Creating '' @ fstr_opt analyzer)),
              Print (PyStr (''DEBUG: URL = '' @ ?url)), Http DELETE ?url ?hdrs NoData,
              Print (PyInt (status_code r0)), Sleep 1, ?put] @ rest"
      by (rule exI[of _ rest]) (simp add: r)
  qed
qed

text \<open>A DELETE that raises, a sleep that is interrupted after the DELETE, and a DELETE
  that is answered with code 500.\<close>

theorem create_analyzer_deletes_then_puts_witness:
  "create_analyzer example_env 3 ''{}'' (Some ''biz'') (Some ''https://svc'') (Some ''k'') [] =
     (Raise RequestException,
      [Print (PyStr ''Creating biz''),
       Print (PyStr (''DEBUG: URL = '' @ analyzer_url (Some ''https://svc'') (Some ''biz''))),
       Http DELETE (analyzer_url (Some ''https://svc'') (Some ''biz''))
         (request_headers (Some ''k'') ''application/json'') NoData]) \<and>
   create_analyzer interrupted_env 3 ''{}'' (Some ''biz'') (Some ''https://svc'') (Some ''k'') [] =
     (Raise KeyboardInterrupt,
      [Print (PyStr ''Creating biz''),
       Print (PyStr (''DEBUG: URL = '' @ analyzer_url (Some ''https://svc'') (Some ''biz''))),
       Http DELETE (analyzer_url (Some ''https://svc'') (Some ''biz''))
         (request_headers (Some ''k'') ''application/json'') NoData,
       Print (PyInt 204),
       Sleep 1]) \<and>
   (\<exists>rest. snd (create_analyzer refused_delete_env 3 ''{}'' (Some ''biz'') (Some ''https://svc'')
                  (Some ''k'') []) =
      [Print (PyStr ''Creating biz''),
       Print (PyStr (''DEBUG: URL = '' @ analyzer_url (Some ''https://svc'') (Some ''biz''))),
       Http DELETE (analyzer_url (Some ''https://svc'') (Some ''biz''))
         (request_headers (Some ''k'') ''application/json'') NoData,
       Print (PyInt 500),
       Sleep 1,
       Http PUT (analyzer_url (Some ''https://svc'') (Some ''biz''))
         (request_headers (Some ''k'') ''application/json'') (TextData ''{}'')] @ rest)"
  using create_analyzer_deletes_then_puts[of example_env 3 "''{}''" "Some ''biz''" "Some ''https://svc''"
          "Some ''k''" "[]" RequestException]
        create_analyzer_deletes_then_puts[of interrupted_env 3 "''{}''" "Some ''biz''" "Some ''https://svc''"
          "Some ''k''" "[]" KeyboardInterrupt "example_response 204 JNull"]
        create_analyzer_deletes_then_puts[of refused_delete_env 3 "''{}''" "Some ''biz''" "Some ''https://svc''"
          "Some ''k''" "[]" _ "example_response 500 (status_body ''Succeeded'')"]
  by (simp add: interrupted_env_def refused_delete_env_def)

section \<open>The image file of \<open>read-card.py\<close>\<close>

lemma image_file_cases:
  "(if length xs > 1 then xs ! 1 else d) = (case xs of script # a # others \<Rightarrow> a | _ \<Rightarrow> d)"
  by (cases xs; cases "tl xs") auto

lemma starts_with_analyze_card:
  "starts_with (\<lambda>ev. True) (analyze_card E n image_file analyzer endpoint key)
     [Print (PyStr (''Analyzing '' @ image_file)), ReadFile image_file]"
  unfolding analyze_card_def read_binary_file_def and_then_assoc Let_def
  apply (intro starts_with_print starts_with_emit starts_with_nil)
  apply (intro emits_intros emits_analyze_card_await | simp only: split: if_split)+
  done

text \<open>
  Claim C9: \<open>main\<close> of \<open>read-card.py\<close> analyzes \<open>biz-card-1.png\<close> when \<open>sys.argv\<close> holds no
  argument after the name of the script, and the first argument otherwise: that is the
  file named in the first message of \<open>analyze_card\<close> and the file it opens.
\<close>

theorem read_card_image_file:
  "\<exists>rest. snd (read_card_main E n w) =
     w @ [System (if os_name E = ''nt'' then ''cls'' else ''clear''),
          LoadDotenv,
          Print (PyStr (''Analyzing '' @ (case argv E of script # a # others \<Rightarrow> a | _ \<Rightarrow> ''biz-card-1.png''))),
          ReadFile (case argv E of script # a # others \<Rightarrow> a | _ \<Rightarrow> ''biz-card-1.png'')]
       @ rest"
proof -
  let ?f = "case argv E of script # a # others \<Rightarrow> a | _ \<Rightarrow> ''biz-card-1.png''"
  have body: "starts_with (\<lambda>ev. True) (read_card_try_body E n)
      [LoadDotenv, Print (PyStr (''Analyzing '' @ ?f)), ReadFile ?f]"
    unfolding read_card_try_body_def Let_def load_dotenv_def image_file_cases
    by (intro starts_with_emit starts_with_and_then starts_with_analyze_card emits_print TrueI)
  have "starts_with (\<lambda>ev. True) (read_card_main E n)
      [System (if os_name E = ''nt'' then ''cls'' else ''clear''),
       LoadDotenv, Print (PyStr (''Analyzing '' @ ?f)), ReadFile ?f]"
    unfolding read_card_main_def os_system_clear_def
    by (intro starts_with_emit starts_with_try_except_print body TrueI)
  then show ?thesis unfolding starts_with_def by blast
qed

end
